theory Spec2Isabelle
  imports Main
begin

section \<open>The Android live-reload session orchestrator\<close>

text \<open>
  A shallow embedding of \<^verbatim>\<open>scripts/run_android_live_reload.py\<close>. The script talks to
  the outside world through sockets, child processes and a device log stream; every such
  call is an explicit parameter of the model (what the call returned or raised), and
  everything the script prints or spawns is recorded in a trace of events.

  Text is modelled as \<^typ>\<open>string\<close>. The Python library functions on text that the
  script uses (\<^verbatim>\<open>str.split\<close>, \<^verbatim>\<open>str.strip\<close>, \<^verbatim>\<open>str.upper\<close>,
  \<^verbatim>\<open>str.startswith\<close>, \<^verbatim>\<open>in\<close>, \<^verbatim>\<open>int\<close>) are written out for ASCII text.
\<close>

subsection \<open>Exceptions\<close>

text \<open>
  The exceptions that leave a function of the script:
  \<^item> \<^verbatim>\<open>OSError\<close>, raised by \<^verbatim>\<open>subprocess.Popen\<close> when a process cannot be started;
  \<^item> \<^verbatim>\<open>KeyboardInterrupt\<close>, the user's interrupt, modelled at the three waits of a
    session: \<^verbatim>\<open>wait_for_port\<close>, \<^verbatim>\<open>wait_for_pid\<close> and the supervisory loop;
  \<^item> \<^verbatim>\<open>OverflowError\<close>, raised by \<^verbatim>\<open>socket.bind\<close> for a port outside \<open>0 .. 65535\<close>;
  \<^item> \<^verbatim>\<open>UnicodeDecodeError\<close>, raised by \<^verbatim>\<open>subprocess.run\<close> when the output of the
    command cannot be decoded as text.
\<close>

datatype exn = OSError | KeyboardInterrupt | OverflowError | UnicodeDecodeError

subsection \<open>Port allocator\<close>

text \<open>
  \<^verbatim>\<open>find_free_port(host, start_port, tries)\<close> walks
  \<^verbatim>\<open>range(start_port, start_port + max(1, tries))\<close>. For a port outside \<open>0 .. 65535\<close>,
  \<^verbatim>\<open>s.bind((host, p))\<close> raises \<^verbatim>\<open>OverflowError\<close>, which is not an \<^verbatim>\<open>OSError\<close>: the loop
  does not catch it and it leaves the function. For a port in that range the parameter
  \<open>bind\<close> is the socket: \<open>bind host p\<close> holds when the call returns and fails when it
  raises \<^verbatim>\<open>OSError\<close>, the exception the loop catches. The socket is closed by the
  \<^verbatim>\<open>with\<close> block on every path.
\<close>

fun probe_ports ::
  "(string \<Rightarrow> int \<Rightarrow> bool) \<Rightarrow> string \<Rightarrow> int list \<Rightarrow> exn + int option" where
  "probe_ports bind h [] = Inr None"
| "probe_ports bind h (p # ps) =
     (if p < 0 \<or> 65535 < p then Inl OverflowError
      else if bind h p then Inr (Some p)
      else probe_ports bind h ps)"

definition find_free_port ::
  "(string \<Rightarrow> int \<Rightarrow> bool) \<Rightarrow> string \<Rightarrow> int \<Rightarrow> int \<Rightarrow> exn + int" where
  "find_free_port bind h start_port tries =
     (case probe_ports bind h [start_port .. start_port + max 1 tries - 1] of
        Inl x \<Rightarrow> Inl x
      | Inr (Some p) \<Rightarrow> Inr p
      | Inr None \<Rightarrow> Inr start_port)"

subsection \<open>Python's text functions, on ASCII text\<close>

text \<open>
  \<^verbatim>\<open>str.isspace\<close> holds of the ASCII characters tab, line feed, vertical tab, form feed,
  carriage return, the four separators \<open>0x1C .. 0x1F\<close> and the space.
\<close>

definition isspace :: "char \<Rightarrow> bool" where
  "isspace c = (of_char c \<in> {9, 10, 11, 12, 13, 28, 29, 30, 31, 32 :: nat})"

text \<open>\<^verbatim>\<open>s.split()\<close>: the maximal runs of characters that are not whitespace, in order.\<close>

fun split_fields :: "string \<Rightarrow> string \<Rightarrow> string list" where
  "split_fields w [] = (if w = [] then [] else [w])"
| "split_fields w (c # cs) =
     (if isspace c then (if w = [] then split_fields [] cs else w # split_fields [] cs)
      else split_fields (w @ [c]) cs)"

definition split :: "string \<Rightarrow> string list" where
  "split s = split_fields [] s"

definition strip :: "string \<Rightarrow> string" where
  "strip s = rev (dropWhile isspace (rev (dropWhile isspace s)))"

definition rstrip :: "string \<Rightarrow> string" where
  "rstrip s = rev (dropWhile isspace (rev s))"

fun startswith :: "string \<Rightarrow> string \<Rightarrow> bool" where
  "startswith s [] = True"
| "startswith [] (p # ps) = False"
| "startswith (c # cs) (p # ps) = (c = p \<and> startswith cs ps)"

text \<open>\<^verbatim>\<open>tag in s\<close>: the tag occurs in \<open>s\<close> as a contiguous run.\<close>

fun contains :: "string \<Rightarrow> string \<Rightarrow> bool" where
  "contains tag [] = (tag = [])"
| "contains tag (c # cs) = (startswith (c # cs) tag \<or> contains tag cs)"

text \<open>\<^verbatim>\<open>s.upper()\<close>: the letters \<open>a .. z\<close> become \<open>A .. Z\<close>, every other ASCII character stays.\<close>

definition upper_char :: "char \<Rightarrow> char" where
  "upper_char c =
     (let n = (of_char c :: nat) in if 97 \<le> n \<and> n \<le> 122 then char_of (n - 32) else c)"

definition upper :: "string \<Rightarrow> string" where
  "upper s = map upper_char s"

text \<open>
  \<^verbatim>\<open>s.splitlines()\<close>: lines end at line feed, carriage return (with a following line
  feed, if any), vertical tab, form feed and the separators \<open>0x1C .. 0x1E\<close>; the line ends
  are dropped and there is no empty last line.
\<close>

definition is_linebreak :: "char \<Rightarrow> bool" where
  "is_linebreak c = (of_char c \<in> {10, 11, 12, 13, 28, 29, 30 :: nat})"

fun splitlines_from :: "string \<Rightarrow> string \<Rightarrow> string list" where
  "splitlines_from cur [] = (if cur = [] then [] else [cur])"
| "splitlines_from cur (c # cs) =
     (if c = CHR 0x0D then
        (case cs of
           [] \<Rightarrow> [cur]
         | d # ds \<Rightarrow> if d = CHR 0x0A then cur # splitlines_from [] ds
                     else cur # splitlines_from [] (d # ds))
      else if is_linebreak c then cur # splitlines_from [] cs
      else splitlines_from (cur @ [c]) cs)"

definition splitlines :: "string \<Rightarrow> string list" where
  "splitlines s = splitlines_from [] s"

text \<open>
  \<^verbatim>\<open>int(s)\<close> in base ten: surrounding whitespace is dropped, then an optional sign, then
  decimal digits, where single underscores may stand between two digits. \<open>None\<close> is the
  \<^verbatim>\<open>ValueError\<close>. (The interpreter's configurable cap on the number of digits is
  not modelled; no property below depends on the value parsed from a long numeral.)
\<close>

definition is_digit :: "char \<Rightarrow> bool" where
  "is_digit c = (48 \<le> (of_char c :: nat) \<and> (of_char c :: nat) \<le> 57)"

definition digit_val :: "char \<Rightarrow> nat" where
  "digit_val c = of_char c - 48"

fun int_digits :: "nat \<Rightarrow> string \<Rightarrow> nat option" where
  "int_digits acc [] = Some acc"
| "int_digits acc (c # cs) =
     (if is_digit c then int_digits (acc * 10 + digit_val c) cs
      else if c = CHR ''_'' then
        (case cs of
           [] \<Rightarrow> None
         | d # ds \<Rightarrow> if is_digit d then int_digits (acc * 10 + digit_val d) ds else None)
      else None)"

definition int_unsigned :: "string \<Rightarrow> nat option" where
  "int_unsigned s =
     (case s of
        [] \<Rightarrow> None
      | d # ds \<Rightarrow> if is_digit d then int_digits (digit_val d) ds else None)"

definition py_int :: "string \<Rightarrow> int option" where
  "py_int s =
     (case strip s of
        [] \<Rightarrow> None
      | c # cs \<Rightarrow>
          if c = CHR ''-'' then map_option (\<lambda>n. - int n) (int_unsigned cs)
          else if c = CHR ''+'' then map_option int (int_unsigned cs)
          else map_option int (int_unsigned (c # cs)))"

text \<open>\<^verbatim>\<open>str(i)\<close> of an integer, as the f-strings and the command lines use it.\<close>

fun nat_digits :: "nat \<Rightarrow> string" where
  "nat_digits n =
     (if n < 10 then [''0123456789'' ! n]
      else nat_digits (n div 10) @ [''0123456789'' ! (n mod 10)])"

declare nat_digits.simps [simp del]

definition str_int :: "int \<Rightarrow> string" where
  "str_int i = (if i < 0 then CHR ''-'' # nat_digits (nat (- i)) else nat_digits (nat i))"

text \<open>
  An optional string (\<^verbatim>\<open>Optional[str]\<close>) is truthy when it is a non-empty string;
  \<^verbatim>\<open>x or y\<close> is \<open>x\<close> when \<open>x\<close> is truthy and \<open>y\<close> otherwise.
\<close>

definition truthy :: "string option \<Rightarrow> bool" where
  "truthy x = (case x of None \<Rightarrow> False | Some s \<Rightarrow> s \<noteq> [])"

definition py_or :: "string option \<Rightarrow> string option \<Rightarrow> string option" where
  "py_or x y = (if truthy x then x else y)"

definition text_of :: "string option \<Rightarrow> string" where
  "text_of x = (case x of None \<Rightarrow> ''None'' | Some s \<Rightarrow> s)"

subsection \<open>Log filter pipeline\<close>

text \<open>
  \<^verbatim>\<open>parse_threadtime_pid(line)\<close>: the third whitespace-separated field of a line of at
  least five fields, read as an integer; \<open>None\<close> otherwise.
\<close>

definition parse_threadtime_pid :: "string \<Rightarrow> int option" where
  "parse_threadtime_pid line =
     (let parts = split line in
      if length parts < 5 then None else py_int (parts ! 2))"

definition console_tags :: "string list" where
  "console_tags = [''CAPACITOR'', ''CHROMIUM'', ''CONSOLE'', ''WEBVIEW'', ''SYSTEMWEBCHROMECLIENT'']"

definition is_console_line :: "string \<Rightarrow> bool" where
  "is_console_line line =
     (let up = upper line in list_ex (\<lambda>tag. contains tag up) console_tags)"

text \<open>
  The predicate that \<^verbatim>\<open>run\<close> hands to \<^verbatim>\<open>stream_output\<close> for the log stream: none in
  mode \<^verbatim>\<open>all\<close>, the closure over the shared cell \<^verbatim>\<open>app_pid_holder["pid"]\<close> in mode
  \<^verbatim>\<open>app\<close>, \<^verbatim>\<open>is_console_line\<close> in mode \<^verbatim>\<open>console\<close>. The second argument of
  \<open>passes\<close> is the content of the cell when the line is read.
\<close>

datatype line_filter = NoFilter | AppFilter | ConsoleFilter

fun passes :: "line_filter \<Rightarrow> int option \<Rightarrow> string \<Rightarrow> bool" where
  "passes NoFilter pid line = True"
| "passes AppFilter pid line = (pid = None \<or> parse_threadtime_pid line = pid)"
| "passes ConsoleFilter pid line = is_console_line line"

text \<open>
  The pump of \<^verbatim>\<open>stream_output\<close> over the lines read from a process: empty reads are
  skipped, a line that passes is printed behind the prefix, without its trailing
  whitespace.
\<close>

fun pump :: "string \<Rightarrow> line_filter \<Rightarrow> int option \<Rightarrow> string list \<Rightarrow> string list" where
  "pump prefix f pid [] = []"
| "pump prefix f pid (line # lines) =
     (if line = [] then pump prefix f pid lines
      else if passes f pid line then (prefix @ rstrip line) # pump prefix f pid lines
      else pump prefix f pid lines)"

subsection \<open>Device registry\<close>

text \<open>
  What \<^verbatim>\<open>subprocess.run\<close> did: it completed with the given standard output, or it
  raised \<^verbatim>\<open>TimeoutExpired\<close>, or it raised \<^verbatim>\<open>OSError\<close> (the command could not be
  started), or it raised \<^verbatim>\<open>UnicodeDecodeError\<close> (with \<^verbatim>\<open>text=True\<close>, the output
  could not be decoded). The callers handle the second and the third; the fourth is
  caught by no handler of the script and leaves the caller. These are the outcomes of
  the two calls that read text: the device enumeration and the query of the process id.
\<close>

datatype run_result =
  Completed string | RaisedTimeoutExpired | RaisedOSError | RaisedUnicodeDecodeError

definition adb_devices_timeout_warning :: string where
  "adb_devices_timeout_warning =
     ''Warning: '' @ [CHR 0x60] @ ''adb devices'' @ [CHR 0x60] @
     '' timed out. Device detection disabled. '' @
     ''Unlock the phone and accept USB debugging prompt, or pass --target.''"

fun parse_devices :: "string list \<Rightarrow> (string \<times> bool) list" where
  "parse_devices [] = []"
| "parse_devices (l # ls) =
     (let line = strip l in
      if line = [] \<or> startswith line ''List of devices'' then parse_devices ls
      else
        let parts = split line in
        if length parts < 2 then parse_devices ls
        else
          let serial = parts ! 0; state = parts ! 1 in
          if state \<noteq> ''device'' then parse_devices ls
          else (serial, startswith serial ''emulator-'') # parse_devices ls)"

text \<open>
  \<^verbatim>\<open>list_adb_devices\<close>, given what \<^verbatim>\<open>adb devices\<close> did: the devices and the lines
  the function prints, or the exception that leaves it.
\<close>

definition list_adb_devices ::
  "run_result \<Rightarrow> exn + (string \<times> bool) list \<times> string list" where
  "list_adb_devices result =
     (case result of
        RaisedTimeoutExpired \<Rightarrow> Inr ([], [adb_devices_timeout_warning])
      | RaisedOSError \<Rightarrow> Inr ([], [])
      | RaisedUnicodeDecodeError \<Rightarrow> Inl UnicodeDecodeError
      | Completed stdout \<Rightarrow> Inr (parse_devices (splitlines stdout), []))"

fun first_non_emulator :: "(string \<times> bool) list \<Rightarrow> string option" where
  "first_non_emulator [] = None"
| "first_non_emulator ((serial, is_emulator) # ds) =
     (if \<not> is_emulator then Some serial else first_non_emulator ds)"

text \<open>The body of \<^verbatim>\<open>choose_target\<close> after the device list has been read.\<close>

definition choose_target_from :: "(string \<times> bool) list \<Rightarrow> string option" where
  "choose_target_from devices =
     (if devices = [] then None
      else if length devices = 1 then Some (fst (devices ! 0))
      else (case first_non_emulator devices of
              Some serial \<Rightarrow> Some serial
            | None \<Rightarrow> Some (fst (devices ! 0))))"

definition choose_target :: "run_result \<Rightarrow> exn + string option \<times> string list" where
  "choose_target result =
     (case list_adb_devices result of
        Inl x \<Rightarrow> Inl x
      | Inr (devices, printed) \<Rightarrow> Inr (choose_target_from devices, printed))"

subsection \<open>The session: \<^verbatim>\<open>run\<close>\<close>

datatype conn_mode = Usb | Wifi
datatype logcat_mode = Console | App | All
datatype proc = Dev | Logcat | Cap

text \<open>
  The trace of a session: what it prints, the managed processes it spawns with
  \<^verbatim>\<open>subprocess.Popen\<close>, the pump threads it attaches to them, the helper commands it
  runs to completion with \<^verbatim>\<open>subprocess.run\<close>, the other threads it starts, and the
  \<^verbatim>\<open>terminate()\<close>, \<^verbatim>\<open>wait(timeout)\<close> and \<^verbatim>\<open>kill()\<close> calls on a process.
\<close>

datatype event =
    Print string
  | Popen proc "string list"
  | Stream proc string line_filter
  | Run "string list"
  | StartThread string
  | Terminate proc
  | Wait proc nat
  | Kill proc

text \<open>The command line, as \<^verbatim>\<open>argparse\<close> delivers it.\<close>

record args =
  arg_mode :: conn_mode
  arg_host :: "string option"
  arg_port :: int
  arg_target :: "string option"
  arg_app_id :: "string option"
  arg_logcat :: bool
  arg_logcat_mode :: logcat_mode
  arg_logcat_tags :: "string option"
  arg_logcat_all :: "bool option"
  arg_devtools :: bool

text \<open>
  One connection attempt of \<^verbatim>\<open>wait_for_port\<close>: it connects, or it is refused
  (\<^verbatim>\<open>OSError\<close>, after which the function sleeps and tries again), or the user's
  interrupt arrives.
\<close>

datatype port_probe = Connects | Refuses | PortInterrupt

text \<open>
  One query of the process id during \<^verbatim>\<open>wait_for_pid\<close>: what
  \<^verbatim>\<open>adb shell pidof\<close> did, or the user's interrupt arriving.
\<close>

datatype probe = Pidof run_result | Interrupted

text \<open>
  What the port forwarding of the debug bridge did. This call of \<^verbatim>\<open>subprocess.run\<close>
  captures bytes and decodes nothing: it completes, or raises \<^verbatim>\<open>TimeoutExpired\<close>, or
  raises \<^verbatim>\<open>OSError\<close>, and the function handles both.
\<close>

datatype forward_result = Forwarded | ForwardTimeoutExpired | ForwardOSError

text \<open>
  The world around one session:
  \<^item> \<open>os_nt\<close>: \<^verbatim>\<open>os.name == "nt"\<close>; \<open>which c\<close>: \<^verbatim>\<open>shutil.which(c)\<close> finds the command;
  \<^item> \<open>sock_bind\<close>: the socket of the port allocator;
  \<^item> \<open>adb_devices\<close>: what \<^verbatim>\<open>adb devices\<close> did;
  \<^item> \<open>config_app_id\<close>: what \<^verbatim>\<open>read_app_id\<close> found in the project's configuration file;
  \<^item> \<open>popen_ok p\<close>: \<^verbatim>\<open>subprocess.Popen\<close> starts process \<open>p\<close> (it raises \<^verbatim>\<open>OSError\<close>
    otherwise);
  \<^item> \<open>port_probes\<close>: the connection attempts of \<^verbatim>\<open>wait_for_port\<close> that fit in its
    timeout;
  \<^item> \<open>pidof_probes\<close>: the queries of \<^verbatim>\<open>wait_for_pid\<close> that fit in its timeout;
  \<^item> \<open>has_websocket\<close>: the import of the websocket module succeeded;
  \<^item> \<open>cdp_forward\<close>: what the port forwarding of the debug bridge did;
  \<^item> \<open>alive_at_exit p\<close>: \<^verbatim>\<open>p.poll() is None\<close> when the \<^verbatim>\<open>finally\<close> block runs;
  \<^item> \<open>exits_in_grace p\<close>: \<^verbatim>\<open>p.wait(timeout)\<close> returns there (it raises
    \<^verbatim>\<open>TimeoutExpired\<close> otherwise).
\<close>

record env =
  os_nt :: bool
  which :: "string \<Rightarrow> bool"
  sock_bind :: "string \<Rightarrow> int \<Rightarrow> bool"
  adb_devices :: run_result
  config_app_id :: "string option"
  popen_ok :: "proc \<Rightarrow> bool"
  port_probes :: "port_probe list"
  pidof_probes :: "probe list"
  has_websocket :: bool
  cdp_forward :: forward_result
  alive_at_exit :: "proc \<Rightarrow> bool"
  exits_in_grace :: "proc \<Rightarrow> bool"

text \<open>
  The local variables of \<^verbatim>\<open>run\<close>, and the trace so far. A process handle is \<open>None\<close>
  as in the source; \<open>app_pid_holder\<close> is \<open>None\<close> before the cell exists and \<open>Some pid\<close>
  for the cell \<^verbatim>\<open>{"pid": pid}\<close>.
\<close>

record locals =
  out :: "event list"
  chosen_port :: int
  npm_cmd :: string
  npx_cmd :: string
  adb_cmd :: string
  adb_available :: bool
  target :: "string option"
  app_id :: "string option"
  logcat_mode :: logcat_mode
  logcat_all :: bool
  dev_proc :: "proc option"
  logcat_proc :: "proc option"
  cap_proc :: "proc option"
  app_pid_holder :: "int option option"

text \<open>
  How a session ends: \<^verbatim>\<open>run\<close> returns an exit code, or an exception leaves it; or,
  when the rounds of the supervisory loop that are given are used up, it is still
  running.
\<close>

datatype outcome = Return int | Raise exn | Running

definition emit :: "event list \<Rightarrow> locals \<Rightarrow> locals" where
  "emit evs s = s\<lparr>out := out s @ evs\<rparr>"

definition resolve_cmd :: "env \<Rightarrow> string \<Rightarrow> string" where
  "resolve_cmd e name =
     (if os_nt e \<and> which e (name @ ''.cmd'') then name @ ''.cmd'' else name)"

text \<open>
  \<^verbatim>\<open>wait_for_port\<close>: true at the first attempt that connects, false when the timeout
  is reached; an interrupt ends it with \<^verbatim>\<open>KeyboardInterrupt\<close>.
\<close>

fun wait_for_port :: "port_probe list \<Rightarrow> exn + bool" where
  "wait_for_port [] = Inr False"
| "wait_for_port (Connects # rest) = Inr True"
| "wait_for_port (Refuses # rest) = wait_for_port rest"
| "wait_for_port (PortInterrupt # rest) = Inl KeyboardInterrupt"

definition get_app_pid :: "run_result \<Rightarrow> exn + int option" where
  "get_app_pid result =
     (case result of
        RaisedTimeoutExpired \<Rightarrow> Inr None
      | RaisedOSError \<Rightarrow> Inr None
      | RaisedUnicodeDecodeError \<Rightarrow> Inl UnicodeDecodeError
      | Completed stdout \<Rightarrow>
          (let pid_text = strip stdout in
           if pid_text = [] then Inr None else Inr (py_int (split pid_text ! 0))))"

text \<open>
  \<^verbatim>\<open>wait_for_pid\<close>: the first query that yields a process id other than \<open>0\<close>, or
  \<open>None\<close> at the deadline; an interrupt ends it with \<^verbatim>\<open>KeyboardInterrupt\<close>, and an
  exception that leaves \<^verbatim>\<open>get_app_pid\<close> leaves it too.
\<close>

fun wait_for_pid :: "string list \<Rightarrow> probe list \<Rightarrow> (exn + int option) \<times> event list" where
  "wait_for_pid cmd [] = (Inr None, [])"
| "wait_for_pid cmd (Interrupted # ps) = (Inl KeyboardInterrupt, [])"
| "wait_for_pid cmd (Pidof r # ps) =
     (case get_app_pid r of
        Inl x \<Rightarrow> (Inl x, [Run cmd])
      | Inr pid \<Rightarrow>
          if pid \<noteq> None \<and> pid \<noteq> Some 0 then (Inr pid, [Run cmd])
          else (let (res, evs) = wait_for_pid cmd ps in (res, Run cmd # evs)))"

definition start_logcat ::
  "env \<Rightarrow> string \<Rightarrow> string option \<Rightarrow> string option \<Rightarrow> bool \<Rightarrow> proc option \<times> event list" where
  "start_logcat e adb tgt tags all_logs =
     (if \<not> which e adb then (None, [Print ''Warning: adb not found in PATH. Logcat disabled.''])
      else
        let cmd = [adb] @ (if truthy tgt then [''-s'', text_of tgt] else [])
                  @ [''logcat'', ''-v'', ''threadtime'']
                  @ (if \<not> all_logs \<and> truthy tags then ''-s'' # split (text_of tags) else [])
        in if popen_ok e Logcat then (Some Logcat, [Popen Logcat cmd])
           else (None, [Print ''Warning: failed to start adb logcat.'']))"

text \<open>
  \<^verbatim>\<open>start_cdp_console_stream\<close>, seen from the session: the port forwarding and the
  start of the worker thread. What the worker does is \<open>cdp_pump\<close> below.
\<close>

definition start_cdp_console_stream :: "env \<Rightarrow> string \<Rightarrow> string option \<Rightarrow> event list" where
  "start_cdp_console_stream e adb tgt =
     (if \<not> has_websocket e then
        [Print ''Warning: websocket-client not installed. Run: pip install websocket-client'']
      else
        let forward_cmd = [adb] @ (if truthy tgt then [''-s'', text_of tgt] else [])
                          @ [''forward'', ''tcp:9222'', ''localabstract:chrome_devtools_remote'']
        in (case cdp_forward e of
              ForwardTimeoutExpired \<Rightarrow>
                [Run forward_cmd, Print ''Warning: adb forward timed out (CDP).'']
            | ForwardOSError \<Rightarrow>
                [Run forward_cmd, Print ''Warning: Failed to set up CDP port forwarding.'']
            | Forwarded \<Rightarrow> [Run forward_cmd, StartThread ''cdp_pump'']))"

text \<open>
  The first part of \<^verbatim>\<open>run\<close>, up to the start of the dev server: either the way
  \<^verbatim>\<open>run\<close> ends there (the exit code of a fatal setup error, or an exception of the port
  allocator or of the device enumeration), or the local variables resolved.
\<close>

definition startup :: "env \<Rightarrow> args \<Rightarrow> event list \<times> (outcome + locals)" where
  "startup e a =
     (if arg_mode a = Wifi \<and> \<not> truthy (arg_host a) then
        ([Print ''Error: --host is required for wifi mode.''], Inl (Return 2))
      else
        (case find_free_port (sock_bind e) ''127.0.0.1'' (arg_port a) 20 of
           Inl x \<Rightarrow> ([], Inl (Raise x))
         | Inr chosen \<Rightarrow>
             let ev1 = (if chosen \<noteq> arg_port a then
                          [Print (''Port '' @ str_int (arg_port a) @ '' is busy; using ''
                                  @ str_int chosen @ '' instead.'')]
                        else []);
                 npm = resolve_cmd e ''npm'';
                 npx = resolve_cmd e ''npx'';
                 adb = resolve_cmd e ''adb''
             in
             if \<not> which e npm then
               (ev1 @ [Print ''Error: npm not found in PATH.''], Inl (Return 2))
             else if \<not> which e npx then
               (ev1 @ [Print ''Error: npx not found in PATH.''], Inl (Return 2))
             else
               let avail = which e adb in
               (case (if avail then choose_target (adb_devices e) else Inr (None, [])) of
                  Inl x \<Rightarrow> (ev1 @ [Run [adb, ''devices'']], Inl (Raise x))
                | Inr (auto_target, printed) \<Rightarrow>
                    let ev2 = (if avail then
                                 [Run [adb, ''devices'']] @ map Print printed
                                 @ [if truthy auto_target
                                    then Print (''Using device: '' @ text_of auto_target)
                                    else Print ''Warning: No ready Android devices found.'']
                               else
                                 [Print ''Warning: adb not found in PATH. Device detection may fail.'']);
                        ev3 = (if avail \<and> arg_devtools a then
                                 [Run [adb, ''forward'', ''tcp:9222'',
                                       ''localabstract:chrome_devtools_remote'']]
                               else []);
                        mode = (if arg_logcat_all a = Some True then All else arg_logcat_mode a)
                    in (ev1 @ ev2 @ ev3,
                        Inr \<lparr>out = [], chosen_port = chosen, npm_cmd = npm, npx_cmd = npx,
                             adb_cmd = adb, adb_available = avail,
                             target = py_or (arg_target a) auto_target,
                             app_id = py_or (arg_app_id a) (config_app_id e),
                             logcat_mode = mode, logcat_all = (mode = All),
                             dev_proc = None, logcat_proc = None, cap_proc = None,
                             app_pid_holder = None\<rparr>))))"

definition dev_cmd :: "locals \<Rightarrow> string list" where
  "dev_cmd s = [npm_cmd s, ''run'', ''dev'', ''--'', ''--host'', ''0.0.0.0'', ''--strictPort'',
                ''--port'', str_int (chosen_port s)]"

definition cap_cmd :: "args \<Rightarrow> locals \<Rightarrow> string list" where
  "cap_cmd a s =
     [npx_cmd s, ''cap'', ''run'', ''android'', ''-l'', ''--host'',
      (if arg_mode a = Wifi then text_of (arg_host a) else ''localhost''),
      ''--port'', str_int (chosen_port s)]
     @ (if arg_mode a = Usb then
          [''--forwardPorts'', str_int (chosen_port s) @ '':'' @ str_int (chosen_port s)]
        else [])
     @ (if truthy (target s) then [''--target'', text_of (target s)] else [])"

text \<open>
  The \<^verbatim>\<open>try\<close> block, in the order of the source. Each part gives the exception that
  leaves it, if any, and the local variables as they are then.
\<close>

definition body_port :: "env \<Rightarrow> locals \<Rightarrow> exn option \<times> locals" where
  "body_port e s =
     (let s1 = emit [Print (''Waiting for Vite on 127.0.0.1:'' @ str_int (chosen_port s)
                            @ ''...'')] s
      in (case wait_for_port (port_probes e) of
            Inl x \<Rightarrow> (Some x, s1)
          | Inr ready \<Rightarrow>
              (None, if \<not> ready
                     then emit [Print ''Warning: dev server not ready yet, continuing anyway.''] s1
                     else s1)))"

definition body_logcat :: "env \<Rightarrow> args \<Rightarrow> locals \<Rightarrow> exn option \<times> locals" where
  "body_logcat e a s =
     (if \<not> arg_logcat a then (None, s)
      else
        let s1 = (if logcat_mode s = App \<and> \<not> truthy (app_id s) then
                    (emit [Print ''Warning: appId not found; showing all logs.''] s)
                      \<lparr>logcat_mode := All, logcat_all := True\<rparr>
                  else s);
            s2 = (emit [Run [adb_cmd s1, ''logcat'', ''-c''], Print ''Starting adb logcat...''] s1)
                   \<lparr>app_pid_holder := Some None\<rparr>;
            (h, evs) = start_logcat e (adb_cmd s2) (target s2) (arg_logcat_tags a) (logcat_all s2);
            s3 = (emit evs s2)\<lparr>logcat_proc := h\<rparr>
        in if h = None then (None, s3)
           else (None, emit [Stream Logcat ''[logcat] ''
                        (case logcat_mode s3 of
                           All \<Rightarrow> NoFilter | App \<Rightarrow> AppFilter | Console \<Rightarrow> ConsoleFilter)] s3))"

definition body_cap :: "env \<Rightarrow> args \<Rightarrow> locals \<Rightarrow> exn option \<times> locals" where
  "body_cap e a s =
     (let s1 = emit [Print ''Starting Capacitor run...''] s in
      if \<not> popen_ok e Cap then (Some OSError, s1)
      else (None, (emit [Popen Cap (cap_cmd a s1), Stream Cap ''[cap] '' NoFilter] s1)
                    \<lparr>cap_proc := Some Cap\<rparr>))"

text \<open>The end of PID discovery: the cell is written and the result is printed.\<close>

definition store_pid :: "int option \<Rightarrow> locals \<Rightarrow> locals" where
  "store_pid pid s =
     (emit [if pid \<noteq> None \<and> pid \<noteq> Some 0
            then Print (''App PID: '' @ str_int (case pid of Some p \<Rightarrow> p | None \<Rightarrow> 0))
            else Print ''Warning: app pid not found; logcat may be noisy.''] s)
       \<lparr>app_pid_holder := Some pid\<rparr>"

definition body_pid :: "env \<Rightarrow> args \<Rightarrow> locals \<Rightarrow> exn option \<times> locals" where
  "body_pid e a s =
     (if arg_logcat a \<and> logcat_mode s = App \<and> truthy (app_id s) \<and> adb_available s
         \<and> app_pid_holder s \<noteq> None then
        let (res, evs) = wait_for_pid [adb_cmd s, ''shell'', ''pidof'', ''-s'', text_of (app_id s)]
                           (pidof_probes e);
            s1 = emit ([Print ''Waiting for app process for logcat (app mode)...''] @ evs) s
        in (case res of
              Inr pid \<Rightarrow> (None, store_pid pid s1)
            | Inl x \<Rightarrow> if x = KeyboardInterrupt then (None, store_pid None s1) else (Some x, s1))
      else (None, s))"

definition body_cdp :: "env \<Rightarrow> args \<Rightarrow> locals \<Rightarrow> exn option \<times> locals" where
  "body_cdp e a s =
     (None,
      emit ((if adb_available s \<and> arg_devtools a then
               Print ''Starting Chrome DevTools Protocol console capture...''
               # start_cdp_console_stream e (adb_cmd s) (target s)
             else [])
            @ [Print ''Live reload running. Logs will appear here (Ctrl+C to stop).'']) s)"

text \<open>
  The supervisory loop. One \<open>Poll\<close> is one round of the \<^verbatim>\<open>while True\<close> loop, with what
  \<^verbatim>\<open>cap_proc.poll()\<close> and \<^verbatim>\<open>dev_proc.poll()\<close> return in that round (\<open>None\<close> while the
  process runs, its exit code afterwards); \<open>Interrupt\<close> is the \<^verbatim>\<open>KeyboardInterrupt\<close>
  arriving. When the rounds given are used up the loop is still going: \<open>Running\<close>.
\<close>

datatype tick = Poll "int option" "int option" | Interrupt

definition exit_message :: "string \<Rightarrow> int \<Rightarrow> string" where
  "exit_message label code =
     ''['' @ label @ ''] process exited with code '' @ str_int code @ ''; keeping wrapper alive.''"

definition poll_step :: "int option \<Rightarrow> int option \<Rightarrow> locals \<Rightarrow> locals" where
  "poll_step cap_poll dev_poll s =
     (let s1 = (case cap_poll of
                  Some code \<Rightarrow>
                    if cap_proc s \<noteq> None then
                      (emit [Print (exit_message ''cap'' code)] s)\<lparr>cap_proc := None\<rparr>
                    else s
                | None \<Rightarrow> s)
      in (case dev_poll of
            Some code \<Rightarrow>
              if dev_proc s1 \<noteq> None then
                (emit [Print (exit_message ''dev'' code)] s1)\<lparr>dev_proc := None\<rparr>
              else s1
          | None \<Rightarrow> s1))"

fun supervise :: "tick list \<Rightarrow> locals \<Rightarrow> outcome \<times> locals" where
  "supervise [] s = (Running, s)"
| "supervise (Interrupt # ts) s = (Return 0, s)"
| "supervise (Poll cap_poll dev_poll # ts) s = supervise ts (poll_step cap_poll dev_poll s)"

text \<open>One part of the \<^verbatim>\<open>try\<close> block after another: an exception ends the block.\<close>

definition and_then ::
  "exn option \<times> locals \<Rightarrow> (locals \<Rightarrow> exn option \<times> locals) \<Rightarrow> exn option \<times> locals" where
  "and_then r f = (case r of (Some x, s) \<Rightarrow> (Some x, s) | (None, s) \<Rightarrow> f s)"

definition setup_body :: "env \<Rightarrow> args \<Rightarrow> locals \<Rightarrow> exn option \<times> locals" where
  "setup_body e a s =
     and_then (and_then (and_then (and_then (body_port e s) (body_logcat e a)) (body_cap e a))
                 (body_pid e a)) (body_cdp e a)"

definition try_body :: "env \<Rightarrow> args \<Rightarrow> tick list \<Rightarrow> locals \<Rightarrow> outcome \<times> locals" where
  "try_body e a ticks s =
     (case setup_body e a s of
        (Some x, s1) \<Rightarrow> (Raise x, s1)
      | (None, s1) \<Rightarrow> supervise ticks s1)"

text \<open>The \<^verbatim>\<open>finally\<close> block.\<close>

definition graceful_stop :: "env \<Rightarrow> proc \<Rightarrow> nat \<Rightarrow> event list" where
  "graceful_stop e p grace =
     [Terminate p, Wait p grace] @ (if exits_in_grace e p then [] else [Kill p])"

definition finally_block :: "env \<Rightarrow> locals \<Rightarrow> locals" where
  "finally_block e s =
     (let s1 = (if logcat_proc s \<noteq> None \<and> alive_at_exit e Logcat then
                  emit (graceful_stop e Logcat 5) s
                else s)
      in if dev_proc s1 \<noteq> None then emit (graceful_stop e Dev 10) s1 else s1)"

text \<open>
  \<^verbatim>\<open>run\<close>: how the session ends (or that it is still in its loop), and its trace.
  The dev server is started before the \<^verbatim>\<open>try\<close> block, so a failure to start it leaves
  \<^verbatim>\<open>run\<close> with no \<^verbatim>\<open>finally\<close>.
\<close>

definition run :: "env \<Rightarrow> args \<Rightarrow> tick list \<Rightarrow> outcome \<times> event list" where
  "run e a ticks =
     (case startup e a of
        (evs, Inl ended) \<Rightarrow> (ended, evs)
      | (evs, Inr s0) \<Rightarrow>
          let s1 = emit (evs @ [Print ''Starting Vite dev server...'']) s0 in
          if \<not> popen_ok e Dev then (Raise OSError, out s1)
          else
            let s2 = (emit [Popen Dev (dev_cmd s1), Stream Dev ''[dev] '' NoFilter] s1)
                       \<lparr>dev_proc := Some Dev\<rparr>;
                (res, s3) = try_body e a ticks s2
            in if res = Running then (Running, out s3) else (res, out (finally_block e s3)))"

subsection \<open>Remote debug bridge: the worker \<^verbatim>\<open>cdp_pump\<close>\<close>

text \<open>
  How \<^verbatim>\<open>websocket.create_connection\<close> is called: with \<^verbatim>\<open>suppress_origin=True\<close>, or
  with \<^verbatim>\<open>origin=...\<close>. The call is a parameter \<open>create_connection url how\<close>: a connection,
  or the text of the exception raised.
\<close>

datatype origin = SuppressOrigin | Origin string

record 'ws negotiation =
  ws :: "'ws option"
  last_err :: "string option"
  attempts :: "origin list"
  printed :: "string list"

definition attempt ::
  "(string \<Rightarrow> origin \<Rightarrow> string + 'ws) \<Rightarrow> string \<Rightarrow> origin \<Rightarrow> string
     \<Rightarrow> 'ws negotiation \<Rightarrow> 'ws negotiation" where
  "attempt create_connection ws_url how label st =
     (case create_connection ws_url how of
        Inr conn \<Rightarrow>
          st\<lparr>ws := Some conn, attempts := attempts st @ [how],
             printed := printed st @ [''[cdp] Connected to WebView DevTools '' @ label]\<rparr>
      | Inl e \<Rightarrow> st\<lparr>ws := None, last_err := Some e, attempts := attempts st @ [how]\<rparr>)"

text \<open>Lines 200 to 235: the three attempts, each later one made only while \<^verbatim>\<open>ws is None\<close>.\<close>

definition cdp_connect ::
  "(string \<Rightarrow> origin \<Rightarrow> string + 'ws) \<Rightarrow> string \<Rightarrow> 'ws negotiation" where
  "cdp_connect create_connection ws_url =
     (let st0 = \<lparr>ws = None, last_err = None, attempts = [], printed = []\<rparr>;
          st1 = attempt create_connection ws_url SuppressOrigin ''(no Origin)'' st0;
          st2 = (if ws st1 = None then
                   attempt create_connection ws_url (Origin ''chrome://inspect'')
                     ''(Origin chrome://inspect)'' st1
                 else st1);
          st3 = (if ws st2 = None then
                   attempt create_connection ws_url (Origin ''http://localhost:9222'')
                     ''(Origin http://localhost:9222)'' st2
                 else st2)
      in st3)"

text \<open>
  The discovery loop: \<open>get_url k\<close> is what the call number \<open>k\<close> of
  \<^verbatim>\<open>get_cdp_websocket_url()\<close> returns; at most \<open>n\<close> calls are made.
\<close>

fun poll_ws_url :: "(nat \<Rightarrow> string option) \<Rightarrow> nat \<Rightarrow> nat \<Rightarrow> string option" where
  "poll_ws_url get_url k 0 = None"
| "poll_ws_url get_url k (Suc n) =
     (if truthy (get_url k) then get_url k else poll_ws_url get_url (Suc k) n)"

text \<open>
  What \<^verbatim>\<open>ws.recv()\<close> and the decoding of the message give in one round of the receive
  loop: a read timeout, an empty message, a console event (its level and its arguments
  as rendered), a log entry (its level and text), a message of another method, or
  any other exception, with its text.
\<close>

datatype recv =
    RecvTimeout
  | RecvEmpty
  | ConsoleAPICalled string "string list"
  | LogEntryAdded string string
  | OtherMethod
  | RecvError string

fun join_spaces :: "string list \<Rightarrow> string" where
  "join_spaces [] = []"
| "join_spaces [p] = p"
| "join_spaces (p # q # ps) = p @ '' '' @ join_spaces (q # ps)"

text \<open>
  The receive loop: the lines printed, and whether the loop has ended (it ends at the
  first exception that is not a read timeout).
\<close>

fun cdp_receive :: "recv list \<Rightarrow> string list \<times> bool" where
  "cdp_receive [] = ([], False)"
| "cdp_receive (RecvTimeout # rs) = cdp_receive rs"
| "cdp_receive (RecvEmpty # rs) = cdp_receive rs"
| "cdp_receive (ConsoleAPICalled log_type parts # rs) =
     (let (ls, ended) = cdp_receive rs
      in ((''[console.'' @ log_type @ '']'' @ '' '' @ join_spaces parts) # ls, ended))"
| "cdp_receive (LogEntryAdded level txt # rs) =
     (let (ls, ended) = cdp_receive rs in ((''[log.'' @ level @ ''] '' @ txt) # ls, ended))"
| "cdp_receive (OtherMethod # rs) = cdp_receive rs"
| "cdp_receive (RecvError e # rs) = ([''[cdp] Error: '' @ e], True)"

text \<open>
  One run of the worker: the connection attempts it made, the lines it printed, the
  requests it sent, whether it closed a connection, and whether it has returned. No
  exception leaves the worker: the negotiation and the session are inside
  \<^verbatim>\<open>try ... except Exception\<close>.
\<close>

datatype request = RuntimeEnable | LogEnable

record worker =
  tried :: "origin list"
  lines :: "string list"
  sent :: "request list"
  closed :: bool
  returned :: bool

definition cdp_pump ::
  "(nat \<Rightarrow> string option) \<Rightarrow> (string \<Rightarrow> origin \<Rightarrow> string + 'ws) \<Rightarrow> recv list \<Rightarrow> worker" where
  "cdp_pump get_url create_connection recvs =
     (case poll_ws_url get_url 0 30 of
        None \<Rightarrow>
          \<lparr>tried = [],
           lines = [''[cdp] Warning: Could not connect to WebView DevTools. Console logs unavailable.''],
           sent = [], closed = False, returned = True\<rparr>
      | Some ws_url \<Rightarrow>
          let st = cdp_connect create_connection ws_url in
          (case ws st of
             None \<Rightarrow>
               \<lparr>tried = attempts st,
                lines = printed st @
                  [''[cdp] Connection error: '' @
                   (case last_err st of Some e \<Rightarrow> e | None \<Rightarrow> ''CDP websocket connect failed'')],
                sent = [], closed = False, returned = True\<rparr>
           | Some conn \<Rightarrow>
               let (ls, ended) = cdp_receive recvs in
               \<lparr>tried = attempts st, lines = printed st @ ls,
                sent = [RuntimeEnable, LogEnable], closed = ended, returned = ended\<rparr>))"

subsection \<open>The device list, in the words of the specification\<close>

text \<open>
  A line of the enumeration output denotes a ready device when, without its surrounding
  whitespace, it is not empty, is not the header line, has at least two fields, and its
  second field (the state) is \<^verbatim>\<open>device\<close>. Its record is the first field (the serial)
  and whether the serial starts with \<^verbatim>\<open>emulator-\<close>.
\<close>

definition ready_line :: "string \<Rightarrow> bool" where
  "ready_line l =
     (strip l \<noteq> [] \<and> \<not> startswith (strip l) ''List of devices''
      \<and> 2 \<le> length (split (strip l)) \<and> split (strip l) ! 1 = ''device'')"

definition device_of_line :: "string \<Rightarrow> string \<times> bool" where
  "device_of_line l =
     (split (strip l) ! 0, startswith (split (strip l) ! 0) ''emulator-'')"

text \<open>An output of \<^verbatim>\<open>adb devices\<close> with an emulator, a phone and a phone not yet authorised.\<close>

definition adb_devices_sample :: string where
  "adb_devices_sample =
     ''List of devices attached\<newline>emulator-5554   device\<newline>R58M123ABC      device\<newline>ZY22BQ unauthorized\<newline>\<newline>''"

text \<open>A runtime that refuses every WebSocket upgrade, whatever the origin.\<close>

definition strict_runtime :: "string \<Rightarrow> origin \<Rightarrow> string + nat" where
  "strict_runtime url how =
     (case how of
        SuppressOrigin \<Rightarrow> Inl ''Handshake status 403 Forbidden''
      | Origin x \<Rightarrow> Inl (''Origin rejected: '' @ x))"

text \<open>The child processes of a trace: every \<^verbatim>\<open>Popen\<close> and every \<^verbatim>\<open>subprocess.run\<close>.\<close>

fun is_child :: "event \<Rightarrow> bool" where
  "is_child (Popen p cmd) = True"
| "is_child (Run cmd) = True"
| "is_child ev = False"

definition child_processes :: "event list \<Rightarrow> event list" where
  "child_processes evs = filter is_child evs"

text \<open>
  A session where everything works: all tools are on the path, the preferred port is
  free, a phone is attached, every process starts, is still alive at the end, and exits
  within its grace period. The arguments are the defaults of the command line.
\<close>

definition env_up :: env where
  "env_up = \<lparr>os_nt = False, which = (\<lambda>c. True), sock_bind = (\<lambda>h p. True),
             adb_devices = Completed adb_devices_sample,
             config_app_id = Some ''com.example.app'',
             popen_ok = (\<lambda>p. True), port_probes = [Refuses, Connects],
             pidof_probes = [Pidof (Completed []), Pidof (Completed ''4242'')],
             has_websocket = True, cdp_forward = Forwarded,
             alive_at_exit = (\<lambda>p. True), exits_in_grace = (\<lambda>p. True)\<rparr>"

definition args_default :: args where
  "args_default = \<lparr>arg_mode = Usb, arg_host = None, arg_port = 5173, arg_target = None,
                   arg_app_id = None, arg_logcat = True, arg_logcat_mode = Console,
                   arg_logcat_tags = None, arg_logcat_all = None, arg_devtools = False\<rparr>"

text \<open>A trace in which the app runner is neither terminated nor killed.\<close>

definition cap_untouched :: "event list \<Rightarrow> bool" where
  "cap_untouched evs = (Terminate Cap \<notin> set evs \<and> Kill Cap \<notin> set evs)"

text \<open>The same world without npx on the path.\<close>

definition env_no_npx :: env where
  "env_no_npx = env_up\<lparr>which := (\<lambda>c. c \<noteq> ''npx'')\<rparr>"

text \<open>
  The same world as the first, where the user's interrupt arrives while the session
  waits for the dev server's port.
\<close>

definition env_interrupted :: env where
  "env_interrupted = env_up\<lparr>port_probes := [Refuses, PortInterrupt]\<rparr>"


section \<open>Properties\<close>

subsection \<open>Port allocator\<close>

lemma probe_ports_None:
  "\<forall>p \<in> set ps. 0 \<le> p \<and> p \<le> 65535 \<Longrightarrow>
     probe_ports bind h ps = Inr None \<longleftrightarrow> (\<forall>p \<in> set ps. \<not> bind h p)"
  by (induction ps) auto

lemma probe_ports_upto_first:
  "0 \<le> lo \<Longrightarrow> p \<le> 65535 \<Longrightarrow> lo \<le> p \<Longrightarrow> p \<le> hi \<Longrightarrow> bind h p
     \<Longrightarrow> (\<forall>q. lo \<le> q \<and> q < p \<longrightarrow> \<not> bind h q)
     \<Longrightarrow> probe_ports bind h [lo .. hi] = Inr (Some p)"
proof (induction lo hi rule: upto.induct)
  case (1 i j)
  have ij: "[i .. j] = i # [i + 1 .. j]"
    using "1.prems" by (simp add: upto.simps)
  show ?case
  proof (cases "i = p")
    case True
    with "1.prems" ij show ?thesis by simp
  next
    case False
    with "1.prems" have lt: "i < p" by simp
    with "1.prems" have nb: "\<not> bind h i" by simp
    have step: "probe_ports bind h [i + 1 .. j] = Inr (Some p)"
      using "1.IH" "1.prems" lt by simp
    from "1.prems" lt have "\<not> (i < 0 \<or> 65535 < i)" by simp
    with nb step ij show ?thesis by simp
  qed
qed

text \<open>
  Where no port outside \<open>0 .. 65535\<close> is probed, the allocator does what is asked of it:
  a port of \<open>[P, P+N)\<close> that can be bound and has no bindable port of the range before it
  is the port returned; and when no port of \<open>P .. P+N-1\<close> can be bound and the whole range
  probed lies in \<open>0 .. 65535\<close>, the preferred port \<open>P\<close> is returned unchanged.
\<close>

lemma find_free_port_in_range:
  "(0 \<le> P \<and> P \<le> p \<and> p < P + N \<and> p \<le> 65535 \<and> bind h p
      \<and> (\<forall>q. P \<le> q \<and> q < p \<longrightarrow> \<not> bind h q)
      \<longrightarrow> find_free_port bind h P N = Inr p)
   \<and> (0 \<le> P \<and> P + max 1 N - 1 \<le> 65535 \<and> (\<forall>q. P \<le> q \<and> q < P + N \<longrightarrow> \<not> bind h q)
      \<longrightarrow> find_free_port bind h P N = Inr P)"
proof (intro conjI impI)
  assume a: "0 \<le> P \<and> P \<le> p \<and> p < P + N \<and> p \<le> 65535 \<and> bind h p
      \<and> (\<forall>q. P \<le> q \<and> q < p \<longrightarrow> \<not> bind h q)"
  then have "p \<le> P + max 1 N - 1" by simp
  with a have "probe_ports bind h [P .. P + max 1 N - 1] = Inr (Some p)"
    by (intro probe_ports_upto_first) auto
  then show "find_free_port bind h P N = Inr p"
    by (simp add: find_free_port_def)
next
  assume a: "0 \<le> P \<and> P + max 1 N - 1 \<le> 65535
      \<and> (\<forall>q. P \<le> q \<and> q < P + N \<longrightarrow> \<not> bind h q)"
  have "N \<le> 1 \<or> 1 < N" by linarith
  then show "find_free_port bind h P N = Inr P"
  proof
    assume "N \<le> 1"
    then have l: "[P .. P + max 1 N - 1] = [P]" by (simp add: upto.simps)
    from a \<open>N \<le> 1\<close> have "0 \<le> P" "P \<le> 65535" by simp_all
    then show ?thesis by (simp add: find_free_port_def l)
  next
    assume n: "1 < N"
    have r: "\<forall>q \<in> set [P .. P + max 1 N - 1]. 0 \<le> q \<and> q \<le> 65535" using a by auto
    from n have "\<forall>q \<in> set [P .. P + max 1 N - 1]. \<not> bind h q" using a by auto
    then have "probe_ports bind h [P .. P + max 1 N - 1] = Inr None"
      using probe_ports_None [OF r] by simp
    then show ?thesis by (simp add: find_free_port_def)
  qed
qed

text \<open>
  C2. The preferred port 65530 with a budget of 20 attempts, every port occupied: the
  allocator probes 65530 to 65535, each bind raising the \<^verbatim>\<open>OSError\<close> it catches, then
  probes 65536, where bind raises \<^verbatim>\<open>OverflowError\<close>. The function does not return the
  preferred port: the exception leaves it. The same happens at once for a preferred
  port above 65535, whatever the state of the ports.
\<close>

theorem find_free_port_overflow:
  "find_free_port (\<lambda>h p. False) ''127.0.0.1'' 65530 20 = Inl OverflowError
   \<and> find_free_port (\<lambda>h p. True) ''127.0.0.1'' 70000 20 = Inl OverflowError"
  by (simp add: find_free_port_def)

subsection \<open>Log filter pipeline\<close>

lemma startswith_iff: "startswith s p \<longleftrightarrow> (\<exists>rest. s = p @ rest)"
  by (induction s p rule: startswith.induct) auto

lemma contains_iff: "contains tag s \<longleftrightarrow> (\<exists>pre post. s = pre @ tag @ post)"
proof (induction s)
  case Nil
  then show ?case by auto
next
  case (Cons c cs)
  show ?case
  proof
    assume "contains tag (c # cs)"
    then show "\<exists>pre post. c # cs = pre @ tag @ post"
    proof (simp only: contains.simps, elim disjE)
      assume "startswith (c # cs) tag"
      then obtain rest where "c # cs = tag @ rest" by (auto simp: startswith_iff)
      then have "c # cs = [] @ tag @ rest" by simp
      then show ?thesis by blast
    next
      assume "contains tag cs"
      then obtain pre post where "cs = pre @ tag @ post" using Cons.IH by auto
      then have "c # cs = (c # pre) @ tag @ post" by simp
      then show ?thesis by blast
    qed
  next
    assume "\<exists>pre post. c # cs = pre @ tag @ post"
    then obtain pre post where eq: "c # cs = pre @ tag @ post" by auto
    show "contains tag (c # cs)"
    proof (cases pre)
      case Nil
      with eq have "startswith (c # cs) tag" by (auto simp: startswith_iff)
      then show ?thesis by simp
    next
      case (Cons a pre')
      with eq have "cs = pre' @ tag @ post" by simp
      then have "contains tag cs" using Cons.IH by auto
      then show ?thesis by simp
    qed
  qed
qed

lemma upper_append: "upper (xs @ ys) = upper xs @ upper ys"
  by (simp add: upper_def)

lemma is_console_line_iff:
  "is_console_line line \<longleftrightarrow> (\<exists>tag \<in> set console_tags. \<exists>pre post. upper line = pre @ tag @ post)"
  by (simp add: is_console_line_def list_ex_iff contains_iff)

lemma upper_infix_iff:
  "(\<exists>pre post. upper line = pre @ tag @ post)
     \<longleftrightarrow> (\<exists>pre w post. line = pre @ w @ post \<and> upper w = tag)"
proof
  assume "\<exists>pre post. upper line = pre @ tag @ post"
  then obtain pre post where "map upper_char line = pre @ (tag @ post)"
    by (auto simp: upper_def)
  then obtain us vs where l: "line = us @ vs" and "tag @ post = map upper_char vs"
    by (auto simp: map_eq_append_conv)
  then have "map upper_char vs = tag @ post" by simp
  then obtain w ps where "vs = w @ ps" and "tag = map upper_char w"
    by (auto simp: map_eq_append_conv)
  with l have "line = us @ w @ ps \<and> upper w = tag" by (simp add: upper_def)
  then show "\<exists>pre w post. line = pre @ w @ post \<and> upper w = tag" by blast
next
  assume "\<exists>pre w post. line = pre @ w @ post \<and> upper w = tag"
  then obtain pre w post where "line = pre @ w @ post" and "upper w = tag" by blast
  then have "upper line = upper pre @ tag @ upper post" by (simp add: upper_append)
  then show "\<exists>pre post. upper line = pre @ tag @ post" by blast
qed

text \<open>
  C4. The console-mode predicate holds of a line exactly when the uppercased line
  contains one of the five fixed tags: it is true when some tag occurs there and false
  when none does. It holds of every line that contains one of the tags in any letter
  case (a word \<open>w\<close> whose uppercase is the tag), in particular \<open>CONSOLE\<close>. The predicate
  attached to the log stream in console mode is this one, and its value is the same
  whatever the shared PID cell holds.
\<close>

theorem console_filter_spec:
  "(is_console_line line \<longleftrightarrow>
      (\<exists>tag \<in> set console_tags. \<exists>pre post. upper line = pre @ tag @ post))
   \<and> ((\<exists>tag \<in> set console_tags. \<exists>pre w post. line = pre @ w @ post \<and> upper w = tag)
        \<longrightarrow> is_console_line line)
   \<and> (upper w = ''CONSOLE'' \<longrightarrow> is_console_line (pre @ w @ post))
   \<and> passes ConsoleFilter pid line = is_console_line line
   \<and> passes ConsoleFilter pid line = passes ConsoleFilter pid' line"
proof (intro conjI impI)
  show "is_console_line line \<longleftrightarrow>
      (\<exists>tag \<in> set console_tags. \<exists>pre post. upper line = pre @ tag @ post)"
    by (rule is_console_line_iff)
next
  assume "\<exists>tag \<in> set console_tags. \<exists>pre w post. line = pre @ w @ post \<and> upper w = tag"
  then show "is_console_line line"
    by (simp only: is_console_line_iff upper_infix_iff)
next
  assume w: "upper w = ''CONSOLE''"
  have "upper (pre @ w @ post) = upper pre @ ''CONSOLE'' @ upper post"
    by (simp only: upper_append w)
  moreover have "''CONSOLE'' \<in> set console_tags"
    by (simp add: console_tags_def)
  ultimately show "is_console_line (pre @ w @ post)"
    unfolding is_console_line_iff by blast
qed simp_all

theorem console_filter_witness:
  "upper ''Console'' = ''CONSOLE''
   \<and> is_console_line (''I chromium: [INFO:'' @ ''Console'' @ ''(12)] ready'')
   \<and> \<not> is_console_line ''D AudioFlinger: mixer started''"
proof -
  have u: "upper ''Console'' = ''CONSOLE''" by code_simp
  have "is_console_line (''I chromium: [INFO:'' @ ''Console'' @ ''(12)] ready'')"
    using console_filter_spec
      [where w = "''Console''" and pre = "''I chromium: [INFO:''" and post = "''(12)] ready''"] u
    by blast
  moreover have "\<not> is_console_line ''D AudioFlinger: mixer started''" by code_simp
  ultimately show ?thesis using u by simp
qed

lemma pump_filter:
  "pump prefix f pid ls = map (\<lambda>l. prefix @ rstrip l) (filter (\<lambda>l. l \<noteq> [] \<and> passes f pid l) ls)"
  by (induction ls) auto

text \<open>
  C5. In app mode, while the shared PID cell is unset the predicate holds of every line,
  and once the cell holds a PID \<open>P\<close> it holds exactly of the lines whose parsed process-id
  field is \<open>P\<close>. So the pump prints every line it reads before discovery, and afterwards
  the lines of process \<open>P\<close> only.
\<close>

theorem app_filter_spec:
  "passes AppFilter None line
   \<and> (passes AppFilter (Some P) line \<longleftrightarrow> parse_threadtime_pid line = Some P)
   \<and> pump prefix AppFilter None ls = map (\<lambda>l. prefix @ rstrip l) (filter (\<lambda>l. l \<noteq> []) ls)
   \<and> pump prefix AppFilter (Some P) ls =
       map (\<lambda>l. prefix @ rstrip l)
         (filter (\<lambda>l. l \<noteq> [] \<and> parse_threadtime_pid l = Some P) ls)"
  by (simp add: pump_filter)

theorem app_filter_witness:
  "passes AppFilter None ''01-02 03:04:05.678  1234  5678 I Tag: hello''
   \<and> passes AppFilter (Some 1234) ''01-02 03:04:05.678  1234  5678 I Tag: hello''
   \<and> \<not> passes AppFilter (Some 1234) ''01-02 03:04:05.678  4321  5678 I Tag: hello''"
proof -
  have a: "parse_threadtime_pid ''01-02 03:04:05.678  1234  5678 I Tag: hello'' = Some 1234"
    by code_simp
  have b: "parse_threadtime_pid ''01-02 03:04:05.678  4321  5678 I Tag: hello'' \<noteq> Some 1234"
    by code_simp
  show ?thesis
    using a b
      app_filter_spec [of "''01-02 03:04:05.678  1234  5678 I Tag: hello''" 1234]
      app_filter_spec [of "''01-02 03:04:05.678  4321  5678 I Tag: hello''" 1234]
    by blast
qed

text \<open>
  C10. Once a PID \<open>P\<close> has been discovered in app mode, a line from which no PID can be
  parsed (fewer than five whitespace-separated fields, or a third field that is not an
  integer) is suppressed: the parser returns none for it, and none is not \<open>P\<close>.
\<close>

theorem unparsable_line_suppressed:
  "length (split line) < 5 \<or> py_int (split line ! 2) = None
     \<Longrightarrow> parse_threadtime_pid line = None \<and> \<not> passes AppFilter (Some P) line"
  by (auto simp: parse_threadtime_pid_def Let_def)

theorem unparsable_line_witness:
  "length (split ''--------- beginning of main'') < 5
   \<and> \<not> passes AppFilter (Some 1234) ''--------- beginning of main''
   \<and> py_int (split ''01-02 03:04:05.678 pid 5678 I Tag: hello'' ! 2) = None
   \<and> \<not> passes AppFilter (Some 1234) ''01-02 03:04:05.678 pid 5678 I Tag: hello''"
proof -
  have a: "length (split ''--------- beginning of main'') < 5" by code_simp
  have b: "py_int (split ''01-02 03:04:05.678 pid 5678 I Tag: hello'' ! 2) = None" by code_simp
  show ?thesis
    using a b
      unparsable_line_suppressed [of "''--------- beginning of main''" 1234]
      unparsable_line_suppressed [of "''01-02 03:04:05.678 pid 5678 I Tag: hello''" 1234]
    by blast
qed

subsection \<open>Device registry\<close>

lemma first_non_emulator_None:
  "first_non_emulator ds = None \<longleftrightarrow> (\<forall>d \<in> set ds. snd d)"
  by (induction ds rule: first_non_emulator.induct) auto

lemma first_non_emulator_first:
  "\<forall>d \<in> set pre. snd d \<Longrightarrow> first_non_emulator (pre @ (s, False) # post) = Some s"
  by (induction pre) auto

lemma first_non_emulator_mem:
  "first_non_emulator ds = Some s \<Longrightarrow> (s, False) \<in> set ds"
  by (induction ds rule: first_non_emulator.induct) (auto split: if_splits)

lemma parse_devices_flag:
  "d \<in> set (parse_devices ls) \<Longrightarrow> snd d = startswith (fst d) ''emulator-''"
  by (induction ls) (auto simp: Let_def split: if_splits)

lemma parse_devices_refines:
  "parse_devices ls = map device_of_line (filter ready_line ls)"
  by (induction ls) (auto simp: Let_def ready_line_def device_of_line_def)

text \<open>
  C3. \<^verbatim>\<open>choose_target\<close> returns none for the empty list and the sole entry of a list of
  one device; for a longer list it returns the first device that is not an emulator, and
  the first entry only when every device is an emulator. For every list with a device
  that is not an emulator the serial returned is that of such a device, and for the list
  read from \<^verbatim>\<open>adb devices\<close> it does not start with \<^verbatim>\<open>emulator-\<close>.
\<close>

theorem choose_target_spec:
  "choose_target_from [] = None
   \<and> choose_target_from [d] = Some (fst d)
   \<and> (2 \<le> length (pre @ (s, False) # post) \<and> (\<forall>x \<in> set pre. snd x)
        \<longrightarrow> choose_target_from (pre @ (s, False) # post) = Some s)
   \<and> (2 \<le> length ds \<and> (\<forall>x \<in> set ds. snd x) \<longrightarrow> choose_target_from ds = Some (fst (ds ! 0)))
   \<and> ((\<exists>x \<in> set ds. \<not> snd x) \<longrightarrow> (\<exists>t. choose_target_from ds = Some t \<and> (t, False) \<in> set ds))
   \<and> (list_adb_devices r = Inr (devs, pr) \<and> (\<exists>x \<in> set devs. \<not> snd x)
       \<and> choose_target r = Inr (Some t, pr')
        \<longrightarrow> \<not> startswith t ''emulator-'')"
proof (intro conjI impI)
  show "choose_target_from [] = None"
    by (simp add: choose_target_from_def)
  show "choose_target_from [d] = Some (fst d)"
    by (simp add: choose_target_from_def)
next
  assume a: "2 \<le> length (pre @ (s, False) # post) \<and> (\<forall>x \<in> set pre. snd x)"
  then have "first_non_emulator (pre @ (s, False) # post) = Some s"
    by (simp add: first_non_emulator_first)
  with a show "choose_target_from (pre @ (s, False) # post) = Some s"
    by (simp add: choose_target_from_def)
next
  assume a: "2 \<le> length ds \<and> (\<forall>x \<in> set ds. snd x)"
  then have "first_non_emulator ds = None"
    by (simp add: first_non_emulator_None)
  moreover from a have "ds \<noteq> []" "length ds \<noteq> 1" by auto
  ultimately show "choose_target_from ds = Some (fst (ds ! 0))"
    by (simp add: choose_target_from_def)
next
  assume a: "\<exists>x \<in> set ds. \<not> snd x"
  show "\<exists>t. choose_target_from ds = Some t \<and> (t, False) \<in> set ds"
  proof (cases ds)
    case Nil
    with a show ?thesis by simp
  next
    case (Cons x xs)
    show ?thesis
    proof (cases xs)
      case Nil
      with Cons a have "snd x = False" by simp
      then have "(fst x, False) = x" by (cases x) simp
      with Cons Nil show ?thesis by (simp add: choose_target_from_def)
    next
      case (Cons y ys)
      from a have "first_non_emulator ds \<noteq> None"
        by (simp add: first_non_emulator_None)
      then obtain t where t: "first_non_emulator ds = Some t" by auto
      then have "(t, False) \<in> set ds" by (rule first_non_emulator_mem)
      moreover have "choose_target_from ds = Some t"
        using t \<open>ds = x # xs\<close> Cons by (simp add: choose_target_from_def)
      ultimately show ?thesis by blast
    qed
  qed
next
  assume a: "list_adb_devices r = Inr (devs, pr) \<and> (\<exists>x \<in> set devs. \<not> snd x)
       \<and> choose_target r = Inr (Some t, pr')"
  define ds where "ds = devs"
  have flag: "\<And>d. d \<in> set ds \<Longrightarrow> snd d = startswith (fst d) ''emulator-''"
    using a unfolding ds_def
    by (cases r) (auto simp: list_adb_devices_def dest: parse_devices_flag)
  from a have ct: "choose_target_from ds = Some t"
    by (auto simp: choose_target_def ds_def)
  from a have ex: "\<exists>x \<in> set ds. \<not> snd x" by (simp add: ds_def)
  have "(t, False) \<in> set ds"
  proof (cases ds)
    case Nil
    with ex show ?thesis by simp
  next
    case (Cons x xs)
    show ?thesis
    proof (cases xs)
      case Nil
      with Cons ex have "snd x = False" by simp
      then have "(fst x, False) = x" by (cases x) simp
      with Cons Nil ct show ?thesis by (auto simp: choose_target_from_def)
    next
      case (Cons y ys)
      from ex have "first_non_emulator ds \<noteq> None"
        by (simp add: first_non_emulator_None)
      then obtain u where u: "first_non_emulator ds = Some u" by auto
      then have "(u, False) \<in> set ds" by (rule first_non_emulator_mem)
      moreover have "choose_target_from ds = Some u"
        using u \<open>ds = x # xs\<close> Cons by (simp add: choose_target_from_def)
      ultimately show ?thesis using ct by simp
    qed
  qed
  from flag [OF this] show "\<not> startswith t ''emulator-''" by simp
qed

theorem choose_target_witness:
  "choose_target_from [(''emulator-5554'', True), (''R58M123ABC'', False), (''emulator-5556'', True)]
     = Some ''R58M123ABC''
   \<and> choose_target_from [(''emulator-5554'', True), (''emulator-5556'', True)] = Some ''emulator-5554''"
proof -
  have "choose_target_from ([(''emulator-5554'', True)] @ (''R58M123ABC'', False) # [(''emulator-5556'', True)])
     = Some ''R58M123ABC''"
    using choose_target_spec
      [of _ "[(''emulator-5554'', True)]" "''R58M123ABC''" "[(''emulator-5556'', True)]"]
    by simp
  moreover have "choose_target_from [(''emulator-5554'', True), (''emulator-5556'', True)]
     = Some ''emulator-5554''"
    using choose_target_spec
      [of _ _ _ _ "[(''emulator-5554'', True), (''emulator-5556'', True)]"]
    by simp
  ultimately show ?thesis by simp
qed

text \<open>
  An exception of the enumeration that neither handler catches leaves
  \<^verbatim>\<open>list_adb_devices\<close> and \<^verbatim>\<open>choose_target\<close>.
\<close>

lemma list_adb_devices_undecodable:
  "list_adb_devices RaisedUnicodeDecodeError = Inl UnicodeDecodeError
   \<and> choose_target RaisedUnicodeDecodeError = Inl UnicodeDecodeError"
  by (simp add: list_adb_devices_def choose_target_def)

text \<open>
  C8, as claimed, fails where the device bridge cannot be started: on \<^verbatim>\<open>OSError\<close>,
  \<^verbatim>\<open>list_adb_devices\<close> returns the empty list and prints nothing.
\<close>

theorem list_adb_devices_silent_on_oserror:
  "list_adb_devices RaisedOSError = Inr ([], [])"
  by (simp add: list_adb_devices_def)

text \<open>
  C8, amended. \<^verbatim>\<open>list_adb_devices\<close> turns the lines of the enumeration output into
  device records, skipping the header line and every device whose state is not
  \<^verbatim>\<open>device\<close>, and prints nothing then; on the enumeration timeout it returns the empty
  list and prints a warning; when the device bridge cannot be started (\<^verbatim>\<open>OSError\<close>) it
  returns the empty list and prints nothing itself. In these two cases it does not fail:
  it returns.
\<close>

theorem list_adb_devices_spec:
  "list_adb_devices (Completed stdout) =
     Inr (map device_of_line (filter ready_line (splitlines stdout)), [])
   \<and> (startswith (strip l) ''List of devices'' \<longrightarrow> \<not> ready_line l)
   \<and> (ready_line l \<longrightarrow> split (strip l) ! 1 = ''device'')
   \<and> list_adb_devices RaisedTimeoutExpired = Inr ([], [adb_devices_timeout_warning])
   \<and> list_adb_devices RaisedOSError = Inr ([], [])"
  by (simp add: list_adb_devices_def parse_devices_refines ready_line_def)

theorem list_adb_devices_witness:
  "list_adb_devices (Completed adb_devices_sample) =
     Inr ([(''emulator-5554'', True), (''R58M123ABC'', False)], [])
   \<and> \<not> ready_line ''List of devices attached''
   \<and> ready_line ''R58M123ABC      device''"
proof -
  have a: "map device_of_line (filter ready_line (splitlines adb_devices_sample))
        = [(''emulator-5554'', True), (''R58M123ABC'', False)]"
    by code_simp
  have b: "startswith (strip ''List of devices attached'') ''List of devices''" by code_simp
  have c: "ready_line ''R58M123ABC      device''" by code_simp
  show ?thesis
    using a b c list_adb_devices_spec [of adb_devices_sample "''List of devices attached''"]
    by simp
qed

subsection \<open>Remote debug bridge\<close>

text \<open>
  C6. The bridge tries to connect first with no Origin header, then with the origin
  \<^verbatim>\<open>chrome://inspect\<close>, then with the origin \<^verbatim>\<open>http://localhost:9222\<close>, and stops at the
  first attempt that succeeds, keeping that connection. When all three attempts fail
  it has made exactly these three attempts, the error it holds is the third one, and the
  worker prints that error as its connection error and returns without having sent
  anything. It never makes a fourth attempt. The worker returns a value and raises
  nothing, so the session that started it goes on.
\<close>

theorem cdp_connect_fallback_order:
  "(cc url SuppressOrigin = Inr c \<longrightarrow>
      ws (cdp_connect cc url) = Some c \<and> attempts (cdp_connect cc url) = [SuppressOrigin])
   \<and> (cc url SuppressOrigin = Inl e1 \<and> cc url (Origin ''chrome://inspect'') = Inr c \<longrightarrow>
      ws (cdp_connect cc url) = Some c
      \<and> attempts (cdp_connect cc url) = [SuppressOrigin, Origin ''chrome://inspect''])
   \<and> (cc url SuppressOrigin = Inl e1 \<and> cc url (Origin ''chrome://inspect'') = Inl e2
       \<and> cc url (Origin ''http://localhost:9222'') = Inr c \<longrightarrow>
      ws (cdp_connect cc url) = Some c
      \<and> attempts (cdp_connect cc url) =
          [SuppressOrigin, Origin ''chrome://inspect'', Origin ''http://localhost:9222''])
   \<and> (cc url SuppressOrigin = Inl e1 \<and> cc url (Origin ''chrome://inspect'') = Inl e2
       \<and> cc url (Origin ''http://localhost:9222'') = Inl e3 \<longrightarrow>
      ws (cdp_connect cc url) = None \<and> last_err (cdp_connect cc url) = Some e3
      \<and> attempts (cdp_connect cc url) =
          [SuppressOrigin, Origin ''chrome://inspect'', Origin ''http://localhost:9222'']
      \<and> (poll_ws_url get_url 0 30 = Some url \<longrightarrow>
           cdp_pump get_url cc recvs =
             \<lparr>tried = [SuppressOrigin, Origin ''chrome://inspect'', Origin ''http://localhost:9222''],
              lines = [''[cdp] Connection error: '' @ e3],
              sent = [], closed = False, returned = True\<rparr>))
   \<and> length (attempts (cdp_connect cc url)) \<le> 3"
proof (intro conjI impI)
  show "length (attempts (cdp_connect cc url)) \<le> 3"
    by (simp add: cdp_connect_def attempt_def Let_def split: sum.splits)
qed (simp_all add: cdp_pump_def cdp_connect_def attempt_def Let_def)

theorem cdp_connect_fallback_witness:
  "cdp_pump (\<lambda>k. Some ''ws://localhost:9222/devtools/page/1'') strict_runtime [] =
     \<lparr>tried = [SuppressOrigin, Origin ''chrome://inspect'', Origin ''http://localhost:9222''],
      lines = [''[cdp] Connection error: Origin rejected: http://localhost:9222''],
      sent = [], closed = False, returned = True\<rparr>"
proof -
  have u: "poll_ws_url (\<lambda>k. Some ''ws://localhost:9222/devtools/page/1'') 0 30
             = Some ''ws://localhost:9222/devtools/page/1''"
    by code_simp
  have 1: "strict_runtime ''ws://localhost:9222/devtools/page/1'' SuppressOrigin
             = Inl ''Handshake status 403 Forbidden''"
    by (simp add: strict_runtime_def)
  have 2: "strict_runtime ''ws://localhost:9222/devtools/page/1'' (Origin ''chrome://inspect'')
             = Inl ''Origin rejected: chrome://inspect''"
    by (simp add: strict_runtime_def)
  have 3: "strict_runtime ''ws://localhost:9222/devtools/page/1'' (Origin ''http://localhost:9222'')
             = Inl ''Origin rejected: http://localhost:9222''"
    by (simp add: strict_runtime_def)
  show ?thesis
    using cdp_connect_fallback_order
      [of strict_runtime "''ws://localhost:9222/devtools/page/1''" _
          "''Handshake status 403 Forbidden''" "''Origin rejected: chrome://inspect''"
          "''Origin rejected: http://localhost:9222''"
          "\<lambda>k. Some ''ws://localhost:9222/devtools/page/1''" "[]"]
      u 1 2 3
    by simp
qed

subsection \<open>The session\<close>

text \<open>The session where everything works, evaluated.\<close>

lemma str_5173: "str_int 5173 = ''5173''"
  by (simp add: str_int_def nat_digits.simps)

lemma choose_sample:
  "choose_target (Completed adb_devices_sample) = Inr (Some ''R58M123ABC'', [])"
  by code_simp

lemma startup_up:
  "startup env_up args_default =
     ([Run [''adb'', ''devices''], Print ''Using device: R58M123ABC''],
      Inr \<lparr>out = [], chosen_port = 5173, npm_cmd = ''npm'', npx_cmd = ''npx'', adb_cmd = ''adb'',
           adb_available = True, target = Some ''R58M123ABC'', app_id = Some ''com.example.app'',
           logcat_mode = Console, logcat_all = False,
           dev_proc = None, logcat_proc = None, cap_proc = None, app_pid_holder = None\<rparr>)"
  by (simp add: startup_def env_up_def args_default_def find_free_port_def resolve_cmd_def
        choose_sample truthy_def py_or_def text_of_def Let_def)

lemma startup_interrupted:
  "startup env_interrupted args_default =
     ([Run [''adb'', ''devices''], Print ''Using device: R58M123ABC''],
      Inr \<lparr>out = [], chosen_port = 5173, npm_cmd = ''npm'', npx_cmd = ''npx'', adb_cmd = ''adb'',
           adb_available = True, target = Some ''R58M123ABC'', app_id = Some ''com.example.app'',
           logcat_mode = Console, logcat_all = False,
           dev_proc = None, logcat_proc = None, cap_proc = None, app_pid_holder = None\<rparr>)"
  by (simp add: startup_def env_interrupted_def env_up_def args_default_def find_free_port_def
        resolve_cmd_def choose_sample truthy_def py_or_def text_of_def Let_def)

lemma env_up_sel:
  "popen_ok env_up = (\<lambda>p. True)" "which env_up = (\<lambda>c. True)"
  "port_probes env_up = [Refuses, Connects]" "alive_at_exit env_up = (\<lambda>p. True)"
  "exits_in_grace env_up = (\<lambda>p. True)"
  by (simp_all add: env_up_def)

lemma args_default_sel:
  "arg_mode args_default = Usb" "arg_logcat args_default = True"
  "arg_logcat_tags args_default = None" "arg_devtools args_default = False"
  by (simp_all add: args_default_def)

lemma truthy_simps: "truthy None = False" "truthy (Some (c # cs)) = True" "text_of (Some s) = s"
  by (simp_all add: truthy_def text_of_def)

lemma setup_up:
  "setup_body env_up args_default
     \<lparr>out = evs, chosen_port = 5173, npm_cmd = ''npm'', npx_cmd = ''npx'', adb_cmd = ''adb'',
      adb_available = True, target = Some ''R58M123ABC'', app_id = Some ''com.example.app'',
      logcat_mode = Console, logcat_all = False,
      dev_proc = Some Dev, logcat_proc = None, cap_proc = None, app_pid_holder = None\<rparr>
   = (None,
      \<lparr>out = evs @
       [Print ''Waiting for Vite on 127.0.0.1:5173...'',
       Run [''adb'', ''logcat'', ''-c''],
       Print ''Starting adb logcat...'',
       Popen Logcat [''adb'', ''-s'', ''R58M123ABC'', ''logcat'', ''-v'', ''threadtime''],
       Stream Logcat ''[logcat] '' ConsoleFilter,
       Print ''Starting Capacitor run...'',
       Popen Cap [''npx'', ''cap'', ''run'', ''android'', ''-l'', ''--host'', ''localhost'',
                  ''--port'', ''5173'', ''--forwardPorts'', ''5173:5173'',
                  ''--target'', ''R58M123ABC''],
       Stream Cap ''[cap] '' NoFilter,
       Print ''Live reload running. Logs will appear here (Ctrl+C to stop).''],
       chosen_port = 5173, npm_cmd = ''npm'', npx_cmd = ''npx'', adb_cmd = ''adb'',
      adb_available = True, target = Some ''R58M123ABC'', app_id = Some ''com.example.app'',
      logcat_mode = Console, logcat_all = False,
      dev_proc = Some Dev, logcat_proc = Some Logcat, cap_proc = Some Cap,
      app_pid_holder = Some None\<rparr>)"
  by (simp add: setup_body_def and_then_def body_port_def body_logcat_def body_cap_def
        body_pid_def body_cdp_def emit_def
        start_logcat_def cap_cmd_def str_5173 truthy_simps env_up_sel args_default_sel Let_def)

lemma run_up_reaches_loop: "fst (run env_up args_default []) = Running"
  by (simp add: run_def startup_up emit_def try_body_def setup_up env_up_sel Let_def)

text \<open>The supervisory loop.\<close>

lemma supervise_interrupt:
  "Interrupt \<in> set ticks \<Longrightarrow> fst (supervise ticks s) = Return 0"
  by (induction ticks s rule: supervise.induct) auto














text \<open>
  The parts of the \<^verbatim>\<open>try\<close> block before the loop: when none of them raises, the dev
  server's handle is as it was and the app runner's handle is set.
\<close>

lemma and_then_None:
  "and_then r f = (None, s') \<longleftrightarrow> (\<exists>s1. r = (None, s1) \<and> f s1 = (None, s'))"
  by (cases r) (auto simp: and_then_def split: option.splits)

lemma and_then_preserves:
  "Q (snd r) \<Longrightarrow> (\<And>s. Q s \<Longrightarrow> Q (snd (f s))) \<Longrightarrow> Q (snd (and_then r f))"
  by (cases r) (auto simp: and_then_def split: option.splits)

lemma body_port_handles:
  "body_port e s = (x, s') \<Longrightarrow> dev_proc s' = dev_proc s \<and> cap_proc s' = cap_proc s"
  by (auto simp: body_port_def emit_def Let_def split: sum.splits if_splits)

lemma body_logcat_handles:
  "body_logcat e a s = (x, s') \<Longrightarrow> dev_proc s' = dev_proc s \<and> cap_proc s' = cap_proc s"
  by (auto simp: body_logcat_def emit_def Let_def split: prod.splits if_splits)

lemma body_cap_handles:
  "body_cap e a s = (None, s') \<Longrightarrow> dev_proc s' = dev_proc s \<and> cap_proc s' = Some Cap"
  by (auto simp: body_cap_def emit_def Let_def split: if_splits)

lemma body_pid_handles:
  "body_pid e a s = (x, s') \<Longrightarrow> dev_proc s' = dev_proc s \<and> cap_proc s' = cap_proc s"
  by (auto simp: body_pid_def store_pid_def emit_def Let_def
           split: prod.splits sum.splits if_splits)

lemma body_cdp_handles:
  "body_cdp e a s = (x, s') \<Longrightarrow> dev_proc s' = dev_proc s \<and> cap_proc s' = cap_proc s"
  by (auto simp: body_cdp_def emit_def)

lemma setup_body_handles:
  assumes "setup_body e a s = (None, s')"
  shows "dev_proc s' = dev_proc s \<and> cap_proc s' = Some Cap"
proof -
  from assms obtain s1 s2 s3 s4 where
    "body_port e s = (None, s1)" "body_logcat e a s1 = (None, s2)"
    "body_cap e a s2 = (None, s3)" "body_pid e a s3 = (None, s4)"
    "body_cdp e a s4 = (None, s')"
    unfolding setup_body_def and_then_None by blast
  then show ?thesis
    using body_port_handles [of e s None s1] body_logcat_handles [of e a s1 None s2]
      body_cap_handles [of e a s2 s3] body_pid_handles [of e a s3 None s4]
      body_cdp_handles [of e a s4 None s']
    by simp
qed

lemma finally_block_out: "x \<in> set (out s) \<Longrightarrow> x \<in> set (out (finally_block e s))"
  by (auto simp: finally_block_def emit_def Let_def)

text \<open>
  A session that is running after no round of its loop has reached the loop with both
  handles set, and from there on it is the loop and then the \<^verbatim>\<open>finally\<close> block.
\<close>

lemma run_reaches_loop:
  assumes "fst (run e a []) = Running"
  shows "\<exists>s. dev_proc s = Some Dev \<and> cap_proc s = Some Cap
           \<and> (\<forall>ticks. fst (run e a ticks) = fst (supervise ticks s)
                 \<and> set (out (snd (supervise ticks s))) \<subseteq> set (snd (run e a ticks)))"
proof -
  obtain evs r where st: "startup e a = (evs, r)" by (cases "startup e a")
  show ?thesis
  proof (cases r)
    case (Inl ended)
    with st assms have "ended = Running" by (simp add: run_def)
    moreover have "ended \<noteq> Running"
      using st Inl
      by (auto simp: startup_def Let_def split: if_splits sum.splits prod.splits)
    ultimately show ?thesis by simp
  next
    case (Inr s0)
    define s2 where
      "s2 = (emit [Popen Dev (dev_cmd (emit (evs @ [Print ''Starting Vite dev server...'']) s0)),
                   Stream Dev ''[dev] '' NoFilter]
               (emit (evs @ [Print ''Starting Vite dev server...'']) s0))\<lparr>dev_proc := Some Dev\<rparr>"
    have d2: "dev_proc s2 = Some Dev" by (simp add: s2_def)
    show ?thesis
    proof (cases "popen_ok e Dev")
      case False
      with st Inr assms show ?thesis by (simp add: run_def Let_def)
    next
      case True
      obtain x s1 where sb: "setup_body e a s2 = (x, s1)"
        by (cases "setup_body e a s2")
      have run_eq: "\<And>ticks. run e a ticks =
          (let (res, s3) = try_body e a ticks s2
           in if res = Running then (Running, out s3) else (res, out (finally_block e s3)))"
        using st Inr True
        by (simp add: run_def Let_def s2_def)
      show ?thesis
      proof (cases x)
        case (Some ex)
        with sb have "fst (run e a []) = Raise ex"
          by (simp add: run_eq try_body_def)
        with assms show ?thesis by simp
      next
        case None
        with sb have h: "dev_proc s1 = Some Dev \<and> cap_proc s1 = Some Cap"
          using setup_body_handles [of e a s2 s1] d2 by simp
        have "\<And>ticks. fst (run e a ticks) = fst (supervise ticks s1)
                 \<and> set (out (snd (supervise ticks s1))) \<subseteq> set (snd (run e a ticks))"
          using sb None
          by (auto simp: run_eq try_body_def finally_block_out split: prod.splits)
        with h show ?thesis by blast
      qed
    qed
  qed
qed

lemma probe_ports_returns:
  "\<forall>p \<in> set ps. 0 \<le> p \<and> p \<le> 65535 \<Longrightarrow> \<exists>r. probe_ports bind h ps = Inr r"
  by (induction ps) auto

lemma find_free_port_returns:
  "0 \<le> P \<Longrightarrow> P + max 1 N - 1 \<le> 65535 \<Longrightarrow> \<exists>p. find_free_port bind h P N = Inr p"
proof -
  assume "0 \<le> P" "P + max 1 N - 1 \<le> 65535"
  then have "\<forall>q \<in> set [P .. P + max 1 N - 1]. 0 \<le> q \<and> q \<le> 65535" by auto
  from probe_ports_returns [OF this, of bind h]
  obtain r where "probe_ports bind h [P .. P + max 1 N - 1] = Inr r" by blast
  then show ?thesis by (cases r) (simp_all add: find_free_port_def)
qed

text \<open>
  The warnings about the device bridge that \<^verbatim>\<open>run\<close> prints itself: when adb is not on
  the path it warns and runs no enumeration; when the enumeration yields no device it
  warns that no ready device was found.
\<close>

lemma adb_absent_warned_by_run:
  "startup e a = (evs, Inr s) \<Longrightarrow> \<not> which e (resolve_cmd e ''adb'')
     \<Longrightarrow> Print ''Warning: adb not found in PATH. Device detection may fail.'' \<in> set evs
         \<and> child_processes evs = []"
  by (auto simp: startup_def child_processes_def Let_def split: if_splits sum.splits)

lemma no_devices_warned_by_run:
  "startup e a = (evs, Inr s) \<Longrightarrow> which e (resolve_cmd e ''adb'')
     \<Longrightarrow> list_adb_devices (adb_devices e) = Inr ([], pr)
     \<Longrightarrow> Print ''Warning: No ready Android devices found.'' \<in> set evs"
  by (auto simp: startup_def choose_target_def choose_target_from_def truthy_def Let_def
           split: if_splits sum.splits)

text \<open>
  C7, as claimed, fails in two places. The user's interrupt that arrives while the
  session waits for the dev server's port, the dev server already running, is not
  caught: \<^verbatim>\<open>run\<close> does not return 0, the \<^verbatim>\<open>KeyboardInterrupt\<close> leaves it. And with npx
  missing and the preferred port 70000, \<^verbatim>\<open>run\<close> does not return 2: the port allocator
  runs before the tools are looked up, and its \<^verbatim>\<open>OverflowError\<close> leaves \<^verbatim>\<open>run\<close>.
\<close>

theorem interrupt_in_setup_not_caught:
  "fst (run env_interrupted args_default []) = Raise KeyboardInterrupt
   \<and> fst (run env_no_npx (args_default\<lparr>arg_port := 70000\<rparr>) []) = Raise OverflowError"
proof -
  have "fst (run env_interrupted args_default []) = Raise KeyboardInterrupt"
    apply (simp only: run_def startup_interrupted)
    apply (simp add: emit_def try_body_def setup_body_def and_then_def
          body_port_def env_interrupted_def env_up_sel Let_def)
    done
  moreover have "fst (run env_no_npx (args_default\<lparr>arg_port := 70000\<rparr>) []) = Raise OverflowError"
    by (simp add: run_def startup_def find_free_port_def args_default_def truthy_def)
  ultimately show ?thesis by simp
qed

text \<open>
  C7, amended. When local-network mode is selected without a host address, \<^verbatim>\<open>run\<close>
  returns exit code 2 and its trace has no child process. When npm or npx is not found
  on the path and the port allocator has returned (as it does whenever the ports it
  probes lie in \<open>0 .. 65535\<close>, for the preferred ports \<open>0 .. 65516\<close>), \<^verbatim>\<open>run\<close> returns exit
  code 2 and its trace has no child process. A session that has reached its supervisory
  loop returns exit code 0 when the user's interrupt arrives there.
\<close>

theorem fatal_setup_and_interrupt_exit_codes:
  "(arg_mode a = Wifi \<and> \<not> truthy (arg_host a) \<longrightarrow>
      fst (run e a ticks) = Return 2 \<and> child_processes (snd (run e a ticks)) = [])
   \<and> ((\<not> which e (resolve_cmd e ''npm'') \<or> \<not> which e (resolve_cmd e ''npx''))
       \<and> find_free_port (sock_bind e) ''127.0.0.1'' (arg_port a) 20 = Inr p \<longrightarrow>
      fst (run e a ticks) = Return 2 \<and> child_processes (snd (run e a ticks)) = [])
   \<and> ((\<not> which e (resolve_cmd e ''npm'') \<or> \<not> which e (resolve_cmd e ''npx''))
       \<and> 0 \<le> arg_port a \<and> arg_port a \<le> 65516 \<longrightarrow>
      fst (run e a ticks) = Return 2 \<and> child_processes (snd (run e a ticks)) = [])
   \<and> (fst (run e a []) = Running \<and> Interrupt \<in> set ticks \<longrightarrow> fst (run e a ticks) = Return 0)"
proof -
  have tools: "fst (run e a ticks) = Return 2 \<and> child_processes (snd (run e a ticks)) = []"
    if "\<not> which e (resolve_cmd e ''npm'') \<or> \<not> which e (resolve_cmd e ''npx'')"
      and "find_free_port (sock_bind e) ''127.0.0.1'' (arg_port a) 20 = Inr q" for q
    using that by (auto simp: run_def startup_def child_processes_def Let_def)
  show ?thesis
  proof (intro conjI impI)
    assume "arg_mode a = Wifi \<and> \<not> truthy (arg_host a)"
    then show "fst (run e a ticks) = Return 2" "child_processes (snd (run e a ticks)) = []"
      by (simp_all add: run_def startup_def child_processes_def)
  next
    assume "(\<not> which e (resolve_cmd e ''npm'') \<or> \<not> which e (resolve_cmd e ''npx''))
       \<and> find_free_port (sock_bind e) ''127.0.0.1'' (arg_port a) 20 = Inr p"
    then show "fst (run e a ticks) = Return 2" "child_processes (snd (run e a ticks)) = []"
      using tools by blast+
  next
    assume h: "(\<not> which e (resolve_cmd e ''npm'') \<or> \<not> which e (resolve_cmd e ''npx''))
       \<and> 0 \<le> arg_port a \<and> arg_port a \<le> 65516"
    then obtain q where "find_free_port (sock_bind e) ''127.0.0.1'' (arg_port a) 20 = Inr q"
      using find_free_port_returns [of "arg_port a" 20 "sock_bind e" "''127.0.0.1''"] by auto
    with h show "fst (run e a ticks) = Return 2" "child_processes (snd (run e a ticks)) = []"
      using tools by blast+
  next
    assume h: "fst (run e a []) = Running \<and> Interrupt \<in> set ticks"
    then obtain s where "\<forall>ticks. fst (run e a ticks) = fst (supervise ticks s)"
      using run_reaches_loop by blast
    with h show "fst (run e a ticks) = Return 0"
      by (simp add: supervise_interrupt)
  qed
qed

theorem fatal_setup_witness:
  "fst (run env_up (args_default\<lparr>arg_mode := Wifi\<rparr>) []) = Return 2
   \<and> child_processes (snd (run env_up (args_default\<lparr>arg_mode := Wifi\<rparr>) [])) = []
   \<and> fst (run env_no_npx args_default []) = Return 2
   \<and> child_processes (snd (run env_no_npx args_default [])) = []
   \<and> fst (run env_up args_default [Poll None None, Interrupt]) = Return 0"
proof -
  have w: "arg_mode (args_default\<lparr>arg_mode := Wifi\<rparr>) = Wifi
           \<and> \<not> truthy (arg_host (args_default\<lparr>arg_mode := Wifi\<rparr>))"
    by (simp add: args_default_def truthy_def)
  have n: "\<not> which env_no_npx (resolve_cmd env_no_npx ''npx'')"
    by (simp add: env_no_npx_def env_up_def resolve_cmd_def)
  have p: "0 \<le> arg_port args_default \<and> arg_port args_default \<le> 65516"
    by (simp add: args_default_def)
  note r = run_up_reaches_loop
  have i: "Interrupt \<in> set [Poll None None, Interrupt]" by simp
  show ?thesis
    using fatal_setup_and_interrupt_exit_codes
            [where a = "args_default\<lparr>arg_mode := Wifi\<rparr>" and e = env_up and ticks = "[]"]
          fatal_setup_and_interrupt_exit_codes
            [where a = args_default and e = env_no_npx and ticks = "[]"]
          fatal_setup_and_interrupt_exit_codes
            [where a = args_default and e = env_up and ticks = "[Poll None None, Interrupt]"]
          w n p r i
    by blast
qed






subsection \<open>Teardown\<close>

text \<open>
  Whatever the world does and however the session ends, its trace holds no
  \<^verbatim>\<open>terminate()\<close> and no \<^verbatim>\<open>kill()\<close> of the app runner: the \<^verbatim>\<open>finally\<close> block stops
  the log stream and the dev server only.
\<close>

lemma wait_for_pid_events: "set (snd (wait_for_pid cmd ps)) \<subseteq> {Run cmd}"
  by (induction cmd ps rule: wait_for_pid.induct)
     (auto simp: Let_def split: prod.splits sum.splits)

lemma cap_untouched_wait_for_pid: "cap_untouched (snd (wait_for_pid cmd ps))"
  using wait_for_pid_events [of cmd ps] by (auto simp: cap_untouched_def)

lemma cap_untouched_startup: "cap_untouched (fst (startup e a))"
  by (auto simp: startup_def cap_untouched_def Let_def split: prod.splits sum.splits)

lemma startup_out: "startup e a = (evs, Inr s0) \<Longrightarrow> out s0 = []"
  by (auto simp: startup_def Let_def split: prod.splits sum.splits if_splits)

lemma cap_untouched_body_port:
  "cap_untouched (out s) \<Longrightarrow> cap_untouched (out (snd (body_port e s)))"
  by (auto simp: body_port_def emit_def cap_untouched_def Let_def split: sum.splits)

lemma cap_untouched_body_logcat:
  "cap_untouched (out s) \<Longrightarrow> cap_untouched (out (snd (body_logcat e a s)))"
  by (auto simp: body_logcat_def start_logcat_def emit_def cap_untouched_def Let_def
           split: prod.splits if_splits)

lemma cap_untouched_body_cap:
  "cap_untouched (out s) \<Longrightarrow> cap_untouched (out (snd (body_cap e a s)))"
  by (auto simp: body_cap_def emit_def cap_untouched_def Let_def)

lemma cap_untouched_body_pid:
  "cap_untouched (out s) \<Longrightarrow> cap_untouched (out (snd (body_pid e a s)))"
proof -
  assume a: "cap_untouched (out s)"
  obtain res evs where w:
    "wait_for_pid [adb_cmd s, ''shell'', ''pidof'', ''-s'', text_of (app_id s)] (pidof_probes e)
       = (res, evs)"
    by (cases "wait_for_pid [adb_cmd s, ''shell'', ''pidof'', ''-s'', text_of (app_id s)]
                 (pidof_probes e)")
  have "cap_untouched evs"
    using cap_untouched_wait_for_pid
      [of "[adb_cmd s, ''shell'', ''pidof'', ''-s'', text_of (app_id s)]" "pidof_probes e"] w
    by simp
  with a w show ?thesis
    by (auto simp: body_pid_def store_pid_def emit_def cap_untouched_def Let_def
             split: sum.splits)
qed

lemma cap_untouched_body_cdp:
  "cap_untouched (out s) \<Longrightarrow> cap_untouched (out (snd (body_cdp e a s)))"
  by (auto simp: body_cdp_def start_cdp_console_stream_def emit_def cap_untouched_def Let_def
           split: forward_result.splits)

lemma cap_untouched_poll_step:
  "cap_untouched (out s) \<Longrightarrow> cap_untouched (out (poll_step c d s))"
  by (auto simp: poll_step_def emit_def cap_untouched_def Let_def split: option.splits)

lemma cap_untouched_supervise:
  "cap_untouched (out s) \<Longrightarrow> cap_untouched (out (snd (supervise ticks s)))"
  by (induction ticks s rule: supervise.induct) (auto simp: cap_untouched_poll_step)

lemma cap_untouched_setup_body:
  "cap_untouched (out s) \<Longrightarrow> cap_untouched (out (snd (setup_body e a s)))"
  unfolding setup_body_def
  by (intro and_then_preserves [where Q = "\<lambda>s. cap_untouched (out s)"]
        cap_untouched_body_port cap_untouched_body_logcat cap_untouched_body_cap
        cap_untouched_body_pid cap_untouched_body_cdp)

lemma cap_untouched_try_body:
  "cap_untouched (out s) \<Longrightarrow> cap_untouched (out (snd (try_body e a ticks s)))"
proof -
  assume a: "cap_untouched (out s)"
  obtain x s1 where sb: "setup_body e a s = (x, s1)"
    by (cases "setup_body e a s")
  have s1: "cap_untouched (out s1)"
    using cap_untouched_setup_body [OF a, of e a] sb by simp
  show ?thesis
  proof (cases x)
    case None
    with sb show ?thesis
      by (simp add: try_body_def cap_untouched_supervise s1)
  next
    case (Some ex)
    with sb s1 show ?thesis by (simp add: try_body_def)
  qed
qed

lemma cap_untouched_finally:
  "cap_untouched (out s) \<Longrightarrow> cap_untouched (out (finally_block e s))"
  by (auto simp: finally_block_def graceful_stop_def emit_def cap_untouched_def Let_def)

lemma app_runner_never_stopped: "cap_untouched (snd (run e a ticks))"
proof -
  obtain evs r where st: "startup e a = (evs, r)" by (cases "startup e a")
  have evs: "cap_untouched evs" using cap_untouched_startup [of e a] st by simp
  show ?thesis
  proof (cases r)
    case (Inl ended)
    with st evs show ?thesis by (simp add: run_def)
  next
    case (Inr s0)
    define s1 where "s1 = emit (evs @ [Print ''Starting Vite dev server...'']) s0"
    define s2 where "s2 = (emit [Popen Dev (dev_cmd s1), Stream Dev ''[dev] '' NoFilter] s1)
                            \<lparr>dev_proc := Some Dev\<rparr>"
    have o1: "cap_untouched (out s1)"
      using evs startup_out [OF st [unfolded Inr]]
      by (simp add: s1_def emit_def cap_untouched_def)
    then have o2: "cap_untouched (out s2)"
      by (simp add: s2_def emit_def cap_untouched_def)
    obtain res s3 where tb: "try_body e a ticks s2 = (res, s3)"
      by (cases "try_body e a ticks s2")
    have o3: "cap_untouched (out s3)"
      using cap_untouched_try_body [OF o2, of e a ticks] tb by simp
    have o4: "cap_untouched (out (finally_block e s3))"
      using o3 by (rule cap_untouched_finally)
    show ?thesis
      using st Inr o1 o3 o4 tb
      by (simp add: run_def Let_def s1_def [symmetric] s2_def [symmetric])
  qed
qed

text \<open>
  C1. The session where everything works, with the default arguments, interrupted in
  its second round while the dev server, the log stream and the app runner are all
  alive. It returns 0; its trace spawns the dev server, the log stream and the app
  runner, in this order, and in the \<^verbatim>\<open>finally\<close> block terminates the log stream (grace
  period 5 s) and then the dev server (grace period 10 s). The app runner, spawned last,
  is not terminated: its handle has no release.
\<close>

theorem app_runner_left_running:
  "run env_up args_default [Poll None None, Interrupt] =
     (Return 0,
      [Run [''adb'', ''devices''],
       Print ''Using device: R58M123ABC'',
       Print ''Starting Vite dev server...'',
       Popen Dev [''npm'', ''run'', ''dev'', ''--'', ''--host'', ''0.0.0.0'', ''--strictPort'',
                  ''--port'', ''5173''],
       Stream Dev ''[dev] '' NoFilter,
       Print ''Waiting for Vite on 127.0.0.1:5173...'',
       Run [''adb'', ''logcat'', ''-c''],
       Print ''Starting adb logcat...'',
       Popen Logcat [''adb'', ''-s'', ''R58M123ABC'', ''logcat'', ''-v'', ''threadtime''],
       Stream Logcat ''[logcat] '' ConsoleFilter,
       Print ''Starting Capacitor run...'',
       Popen Cap [''npx'', ''cap'', ''run'', ''android'', ''-l'', ''--host'', ''localhost'',
                  ''--port'', ''5173'', ''--forwardPorts'', ''5173:5173'',
                  ''--target'', ''R58M123ABC''],
       Stream Cap ''[cap] '' NoFilter,
       Print ''Live reload running. Logs will appear here (Ctrl+C to stop).'',
       Terminate Logcat, Wait Logcat 5,
       Terminate Dev, Wait Dev 10])"
  by (simp add: run_def startup_up emit_def dev_cmd_def str_5173 try_body_def setup_up
        poll_step_def env_up_sel finally_block_def graceful_stop_def Let_def)

end
